theory Spec2Isabelle
  imports Complex_Main
begin

section \<open>Rule documents\<close>

text \<open>
  A rule document is the JSON object \<^verbatim>\<open>{logic, conditions, connectors?, provider}\<close>
  exchanged between the natural-language inferencer (\<^verbatim>\<open>convertNaturalLanguageToRules\<close>
  in \<^verbatim>\<open>routes/ai\<close>) and the two filter compilers (\<^verbatim>\<open>buildWhereClause\<close> in the
  campaign routes, \<^verbatim>\<open>buildWhereClauseForSegment\<close> in the segment routes).

  A number of the language is a double; the model has the rational it denotes. \<open>None\<close>
  of type \<open>number\<close> stands for \<^verbatim>\<open>NaN\<close>. Optional object properties are
  \<open>option\<close>s.
\<close>

type_synonym number = "rat option"

datatype jsvalue = VNum rat | VStr string

record condition =
  field :: string
  operator :: string
  cvalue :: jsvalue

record rule_document =
  logic :: string
  conditions :: "condition list option"
  connectors :: "string list option"
  provider :: "string option"

text \<open>
  The values \<^verbatim>\<open>JSON.parse\<close> returns: what a request body, a stored document and a
  provider answer are made of. An object is the list of its properties, each key once.
\<close>

datatype json =
    JNull
  | JBool bool
  | JNum rat
  | JStr string
  | JArr "json list"
  | JObj "(string \<times> json) list"


section \<open>The rule predicate compilers\<close>

text \<open>
  The compilers build a filter object for the object-relational mapper. A condition is
  turned into an object with at most one property; \<open>NoConstraint\<close> is the empty object
  \<^verbatim>\<open>{}\<close>. The comparison keys are those of the filter objects the source writes
  (\<^verbatim>\<open>gt\<close>, \<^verbatim>\<open>lt\<close>, \<^verbatim>\<open>gte\<close>, \<^verbatim>\<open>lte\<close>).

  \<open>DaysAgo n\<close> is the \<^verbatim>\<open>Date\<close> the source computes by
  \<^verbatim>\<open>const daysAgo = new Date(); daysAgo.setDate(daysAgo.getDate() - n)\<close>: it is kept
  relative to the clock that \<^verbatim>\<open>new Date()\<close> reads.
\<close>

datatype comparison = Gt | Lt | Gte | Lte

datatype date = DaysAgo number

datatype constraint =
    NoConstraint
  | TotalSpending comparison number
  | VisitCount comparison number
  | LastVisit comparison date
  | Email jsvalue

datatype where_clause =
    Where_empty
  | Where_AND "constraint list"
  | Where_OR "constraint list"

text \<open>
  \<^verbatim>\<open>Number(condition.value)\<close>: a number is itself; the conversion of a string is the
  language's own and is a parameter \<open>N\<close> of the compilers.
\<close>

definition Number :: "(string \<Rightarrow> number) \<Rightarrow> jsvalue \<Rightarrow> number" where
  "Number N v = (case v of VNum n \<Rightarrow> Some n | VStr s \<Rightarrow> N s)"

text \<open>The body of the \<^verbatim>\<open>map\<close> callback in \<^verbatim>\<open>buildWhereClause\<close>: the switch on the field.\<close>

definition conditionWhere :: "(string \<Rightarrow> number) \<Rightarrow> condition \<Rightarrow> constraint" where
  "conditionWhere N c =
    (if field c = ''totalSpending'' then
       (if operator c = ''>'' then TotalSpending Gt (Number N (cvalue c))
        else if operator c = ''<'' then TotalSpending Lt (Number N (cvalue c))
        else if operator c = ''>='' then TotalSpending Gte (Number N (cvalue c))
        else if operator c = ''<='' then TotalSpending Lte (Number N (cvalue c))
        else NoConstraint)
     else if field c = ''visitCount'' then
       (if operator c = ''>'' then VisitCount Gt (Number N (cvalue c))
        else if operator c = ''<'' then VisitCount Lt (Number N (cvalue c))
        else NoConstraint)
     else if field c = ''lastVisit'' then
       (let daysAgo = DaysAgo (Number N (cvalue c)) in
        if operator c = ''before'' then LastVisit Lt daysAgo
        else if operator c = ''after'' then LastVisit Gt daysAgo
        else NoConstraint)
     else if field c = ''email'' then
       (if operator c = ''contains'' then Email (cvalue c) else NoConstraint)
     else NoConstraint)"

definition buildWhereClause :: "(string \<Rightarrow> number) \<Rightarrow> rule_document \<Rightarrow> where_clause" where
  "buildWhereClause N rules =
    (case conditions rules of
       None \<Rightarrow> Where_empty
     | Some cs \<Rightarrow>
         (let conds = map (conditionWhere N) cs in
          if logic rules = ''OR'' then Where_OR conds else Where_AND conds))"

text \<open>The callback of \<^verbatim>\<open>buildWhereClauseForSegment\<close>: the same switch without the \<^verbatim>\<open>lastVisit\<close> case.\<close>

definition conditionWhereForSegment :: "(string \<Rightarrow> number) \<Rightarrow> condition \<Rightarrow> constraint" where
  "conditionWhereForSegment N c =
    (if field c = ''totalSpending'' then
       (if operator c = ''>'' then TotalSpending Gt (Number N (cvalue c))
        else if operator c = ''<'' then TotalSpending Lt (Number N (cvalue c))
        else if operator c = ''>='' then TotalSpending Gte (Number N (cvalue c))
        else if operator c = ''<='' then TotalSpending Lte (Number N (cvalue c))
        else NoConstraint)
     else if field c = ''visitCount'' then
       (if operator c = ''>'' then VisitCount Gt (Number N (cvalue c))
        else if operator c = ''<'' then VisitCount Lt (Number N (cvalue c))
        else NoConstraint)
     else if field c = ''email'' then
       (if operator c = ''contains'' then Email (cvalue c) else NoConstraint)
     else NoConstraint)"

definition buildWhereClauseForSegment :: "(string \<Rightarrow> number) \<Rightarrow> rule_document \<Rightarrow> where_clause" where
  "buildWhereClauseForSegment N rules =
    (case conditions rules of
       None \<Rightarrow> Where_empty
     | Some cs \<Rightarrow>
         (let conds = map (conditionWhereForSegment N) cs in
          if logic rules = ''OR'' then Where_OR conds else Where_AND conds))"

text \<open>The list stored under \<^verbatim>\<open>AND\<close> or \<^verbatim>\<open>OR\<close> of a filter (none in the empty filter).\<close>

fun constraints :: "where_clause \<Rightarrow> constraint list" where
  "constraints Where_empty = []"
| "constraints (Where_AND ks) = ks"
| "constraints (Where_OR ks) = ks"

text \<open>
  The field and operator pairs the campaign compiler acts on, as the specification lists
  them: the four comparisons on \<^verbatim>\<open>totalSpending\<close>, \<^verbatim>\<open>>\<close> and \<^verbatim>\<open><\<close> on
  \<^verbatim>\<open>visitCount\<close>, \<^verbatim>\<open>before\<close> and \<^verbatim>\<open>after\<close> on \<^verbatim>\<open>lastVisit\<close>, \<^verbatim>\<open>contains\<close> on
  \<^verbatim>\<open>email\<close>.
\<close>

definition supported :: "string \<Rightarrow> string \<Rightarrow> bool" where
  "supported f opr =
    (f = ''totalSpending'' \<and> List.member [''>'', ''<'', ''>='', ''<=''] opr
     \<or> f = ''visitCount'' \<and> List.member [''>'', ''<''] opr
     \<or> f = ''lastVisit'' \<and> List.member [''before'', ''after''] opr
     \<or> f = ''email'' \<and> opr = ''contains'')"

section \<open>The campaign compiler on the values it receives\<close>

text \<open>
  \<^verbatim>\<open>buildWhereClause\<close> is called with the \<^verbatim>\<open>rules\<close> of a request body or of a stored
  campaign: a JSON value that no caller checks beyond being an object, or not falsy. The
  definitions of this section embed the function on every such value, with its failures;
  the definitions above are its restriction to the documents of the data model.

  Reading a property of \<^verbatim>\<open>null\<close> throws a \<^verbatim>\<open>TypeError\<close>. Of any other value, the
  properties \<^verbatim>\<open>conditions\<close>, \<^verbatim>\<open>logic\<close>, \<^verbatim>\<open>field\<close>, \<^verbatim>\<open>operator\<close> and \<^verbatim>\<open>value\<close>
  that the compiler reads are those of an object, and \<^verbatim>\<open>undefined\<close> (\<open>None\<close>)
  otherwise.
\<close>

datatype js_error = TypeError

definition getProperty :: "json \<Rightarrow> string \<Rightarrow> json option" where
  "getProperty v p = (case v of JObj kv \<Rightarrow> map_of kv p | _ \<Rightarrow> None)"

text \<open>
  \<^verbatim>\<open>Number(v)\<close> of any value: \<^verbatim>\<open>undefined\<close> is \<^verbatim>\<open>NaN\<close>, \<^verbatim>\<open>null\<close> is 0, a boolean
  0 or 1, a number itself. The conversion of a string is the parameter \<open>N\<close>, as above.
  An array or an object is first converted to a primitive by its \<^verbatim>\<open>valueOf\<close> and
  \<^verbatim>\<open>toString\<close>, which throws a \<^verbatim>\<open>TypeError\<close> when neither gives one (an object with
  an own property \<^verbatim>\<open>toString\<close> that is no function, say): that conversion is the
  parameter \<open>Nobj\<close>.
\<close>

definition Number_json ::
  "(string \<Rightarrow> number) \<Rightarrow> (json \<Rightarrow> js_error + number) \<Rightarrow> json option
   \<Rightarrow> js_error + number" where
  "Number_json N Nobj v =
    (case v of
       None \<Rightarrow> Inr None
     | Some JNull \<Rightarrow> Inr (Some 0)
     | Some (JBool b) \<Rightarrow> Inr (Some (if b then 1 else 0))
     | Some (JNum n) \<Rightarrow> Inr (Some n)
     | Some (JStr t) \<Rightarrow> Inr (N t)
     | Some (JArr xs) \<Rightarrow> Nobj (JArr xs)
     | Some (JObj kv) \<Rightarrow> Nobj (JObj kv))"

text \<open>The filter objects, with whatever \<^verbatim>\<open>condition.value\<close> is under \<^verbatim>\<open>contains\<close>.\<close>

datatype constraint_json =
    Unconstrained
  | OnTotalSpending comparison number
  | OnVisitCount comparison number
  | OnLastVisit comparison date
  | OnEmail "json option"

datatype where_json =
    WhereJ_empty
  | WhereJ_AND "constraint_json list"
  | WhereJ_OR "constraint_json list"

definition withNumber ::
  "js_error + number \<Rightarrow> (number \<Rightarrow> constraint_json) \<Rightarrow> js_error + constraint_json" where
  "withNumber r k = (case r of Inl err \<Rightarrow> Inl err | Inr n \<Rightarrow> Inr (k n))"

text \<open>
  The callback of \<^verbatim>\<open>rules.conditions.map\<close>. \<^verbatim>\<open>switch (condition.field)\<close> reads a
  property of the array entry first, and compares with \<^verbatim>\<open>===\<close>.
\<close>

definition conditionWhere_json ::
  "(string \<Rightarrow> number) \<Rightarrow> (json \<Rightarrow> js_error + number) \<Rightarrow> json
   \<Rightarrow> js_error + constraint_json" where
  "conditionWhere_json N Nobj condition =
    (if condition = JNull then Inl TypeError
     else
       (let fld = getProperty condition ''field'';
            opr = getProperty condition ''operator'';
            v = getProperty condition ''value''
        in if fld = Some (JStr ''totalSpending'') then
             (if opr = Some (JStr ''>'') then withNumber (Number_json N Nobj v) (OnTotalSpending Gt)
              else if opr = Some (JStr ''<'') then withNumber (Number_json N Nobj v) (OnTotalSpending Lt)
              else if opr = Some (JStr ''>='') then withNumber (Number_json N Nobj v) (OnTotalSpending Gte)
              else if opr = Some (JStr ''<='') then withNumber (Number_json N Nobj v) (OnTotalSpending Lte)
              else Inr Unconstrained)
           else if fld = Some (JStr ''visitCount'') then
             (if opr = Some (JStr ''>'') then withNumber (Number_json N Nobj v) (OnVisitCount Gt)
              else if opr = Some (JStr ''<'') then withNumber (Number_json N Nobj v) (OnVisitCount Lt)
              else Inr Unconstrained)
           else if fld = Some (JStr ''lastVisit'') then
             (case Number_json N Nobj v of
                Inl err \<Rightarrow> Inl err
              | Inr n \<Rightarrow>
                  (let daysAgo = DaysAgo n in
                   if opr = Some (JStr ''before'') then Inr (OnLastVisit Lt daysAgo)
                   else if opr = Some (JStr ''after'') then Inr (OnLastVisit Gt daysAgo)
                   else Inr Unconstrained))
           else if fld = Some (JStr ''email'') then
             (if opr = Some (JStr ''contains'') then Inr (OnEmail v) else Inr Unconstrained)
           else Inr Unconstrained))"

text \<open>\<^verbatim>\<open>Array.prototype.map\<close> with a callback that may throw: the first failure ends it.\<close>

fun mapE :: "('a \<Rightarrow> 'e + 'b) \<Rightarrow> 'a list \<Rightarrow> 'e + 'b list" where
  "mapE f [] = Inr []"
| "mapE f (x # xs) =
    (case f x of
       Inl err \<Rightarrow> Inl err
     | Inr y \<Rightarrow> (case mapE f xs of Inl err \<Rightarrow> Inl err | Inr ys \<Rightarrow> Inr (y # ys)))"

definition buildWhereClause_json ::
  "(string \<Rightarrow> number) \<Rightarrow> (json \<Rightarrow> js_error + number) \<Rightarrow> json
   \<Rightarrow> js_error + where_json" where
  "buildWhereClause_json N Nobj rules =
    (if rules = JNull then Inl TypeError
     else
       (case getProperty rules ''conditions'' of
          Some (JArr cs) \<Rightarrow>
            (case mapE (conditionWhere_json N Nobj) cs of
               Inl err \<Rightarrow> Inl err
             | Inr conds \<Rightarrow>
                 if getProperty rules ''logic'' = Some (JStr ''OR'')
                 then Inr (WhereJ_OR conds) else Inr (WhereJ_AND conds))
        | _ \<Rightarrow> Inr WhereJ_empty))"

fun constraints_json :: "where_json \<Rightarrow> constraint_json list" where
  "constraints_json WhereJ_empty = []"
| "constraints_json (WhereJ_AND ks) = ks"
| "constraints_json (WhereJ_OR ks) = ks"

text \<open>Whether an array entry has a field and an operator that the compiler acts on.\<close>

definition supported_json :: "json \<Rightarrow> bool" where
  "supported_json c =
    (case (getProperty c ''field'', getProperty c ''operator'') of
       (Some (JStr f), Some (JStr opr)) \<Rightarrow> supported f opr
     | _ \<Rightarrow> False)"

text \<open>
  How the store reads a filter. The comparison of a record with a field constraint is the
  store's business and is the parameter \<open>sat\<close>; the empty object constrains nothing, the
  list under \<^verbatim>\<open>AND\<close> is a conjunction and the list under \<^verbatim>\<open>OR\<close> a disjunction.
\<close>

definition holds :: "(constraint_json \<Rightarrow> 'c \<Rightarrow> bool) \<Rightarrow> constraint_json \<Rightarrow> 'c \<Rightarrow> bool" where
  "holds sat k c = (case k of Unconstrained \<Rightarrow> True | _ \<Rightarrow> sat k c)"

definition selects :: "(constraint_json \<Rightarrow> 'c \<Rightarrow> bool) \<Rightarrow> where_json \<Rightarrow> 'c \<Rightarrow> bool" where
  "selects sat w c =
    (case w of
       WhereJ_empty \<Rightarrow> True
     | WhereJ_AND ks \<Rightarrow> list_all (\<lambda>k. holds sat k c) ks
     | WhereJ_OR ks \<Rightarrow> list_ex (\<lambda>k. holds sat k c) ks)"

text \<open>The document of the specification's permissiveness example, and one with a null entry.\<close>

definition unknownField_rules :: json where
  "unknownField_rules =
    JObj [(''logic'', JStr ''AND''),
          (''conditions'',
             JArr [JObj [(''field'', JStr ''unknownField''), (''operator'', JStr ''>''),
                         (''value'', JNum 1)]])]"

definition nullEntry_rules :: json where
  "nullEntry_rules = JObj [(''logic'', JStr ''AND''), (''conditions'', JArr [JNull])]"

text \<open>
  A document of the data model as the JSON value it is, and the filters of the restricted
  compiler among the filters of this section.
\<close>

definition json_of_value :: "jsvalue \<Rightarrow> json" where
  "json_of_value v = (case v of VNum n \<Rightarrow> JNum n | VStr t \<Rightarrow> JStr t)"

definition json_of_condition :: "condition \<Rightarrow> json" where
  "json_of_condition c =
    JObj [(''field'', JStr (field c)), (''operator'', JStr (operator c)),
          (''value'', json_of_value (cvalue c))]"

definition json_of_rules :: "rule_document \<Rightarrow> json" where
  "json_of_rules r =
    JObj ((''logic'', JStr (logic r))
          # (case conditions r of
               None \<Rightarrow> []
             | Some cs \<Rightarrow> [(''conditions'', JArr (map json_of_condition cs))])
          @ (case connectors r of
               None \<Rightarrow> []
             | Some ks \<Rightarrow> [(''connectors'', JArr (map JStr ks))])
          @ [(''provider'', (case provider r of None \<Rightarrow> JNull | Some t \<Rightarrow> JStr t))])"

fun constraint_to_json :: "constraint \<Rightarrow> constraint_json" where
  "constraint_to_json NoConstraint = Unconstrained"
| "constraint_to_json (TotalSpending cmp n) = OnTotalSpending cmp n"
| "constraint_to_json (VisitCount cmp n) = OnVisitCount cmp n"
| "constraint_to_json (LastVisit cmp d) = OnLastVisit cmp d"
| "constraint_to_json (Email v) = OnEmail (Some (json_of_value v))"

fun where_to_json :: "where_clause \<Rightarrow> where_json" where
  "where_to_json Where_empty = WhereJ_empty"
| "where_to_json (Where_AND ks) = WhereJ_AND (map constraint_to_json ks)"
| "where_to_json (Where_OR ks) = WhereJ_OR (map constraint_to_json ks)"


section \<open>Strings and numbers of the host language\<close>

text \<open>
  A string is a sequence of code units; the model covers the code units below 256, one
  \<open>char\<close> each. Indices are integers, as in the source, where \<^verbatim>\<open>indexOf\<close> answers
  \<open>-1\<close> for a missing substring and window bounds are computed by subtraction.
\<close>

definition toLowerCaseChar :: "char \<Rightarrow> char" where
  "toLowerCaseChar c =
    (let n = (of_char c :: nat) in
     if (65 \<le> n \<and> n \<le> 90) \<or> (192 \<le> n \<and> n \<le> 222 \<and> n \<noteq> 215)
     then char_of (n + 32) else c)"

definition toLowerCase :: "string \<Rightarrow> string" where
  "toLowerCase s = map toLowerCaseChar s"

definition startsWithAt :: "string \<Rightarrow> string \<Rightarrow> nat \<Rightarrow> bool" where
  "startsWithAt s t i = (take (length t) (drop i s) = t)"

text \<open>\<^verbatim>\<open>s.indexOf(t)\<close>: the least position where \<open>t\<close> starts, or \<open>-1\<close>.\<close>

definition indexOf :: "string \<Rightarrow> string \<Rightarrow> int" where
  "indexOf s t =
    (case filter (startsWithAt s t) [0..<Suc (length s)] of
       [] \<Rightarrow> -1
     | i # _ \<Rightarrow> int i)"

text \<open>\<^verbatim>\<open>s.lastIndexOf(t)\<close>: the greatest such position, or \<open>-1\<close>.\<close>

definition lastIndexOf :: "string \<Rightarrow> string \<Rightarrow> int" where
  "lastIndexOf s t =
    (case filter (startsWithAt s t) (rev [0..<Suc (length s)]) of
       [] \<Rightarrow> -1
     | i # _ \<Rightarrow> int i)"

text \<open>\<^verbatim>\<open>s.includes(t)\<close>.\<close>

definition includesStr :: "string \<Rightarrow> string \<Rightarrow> bool" where
  "includesStr s t = (indexOf s t \<noteq> -1)"

text \<open>
  \<^verbatim>\<open>s.substring(start, end)\<close>: both arguments are clamped to \<open>[0, length]\<close> and swapped
  when the first is the greater.
\<close>

definition substring :: "string \<Rightarrow> int \<Rightarrow> int \<Rightarrow> string" where
  "substring s start fin =
    (let len = int (length s);
         a = min (max start 0) len;
         b = min (max fin 0) len;
         from = min a b;
         to = max a b
     in take (nat (to - from)) (drop (nat from) s))"

text \<open>White space of the language (\<^verbatim>\<open>\s\<close> and \<^verbatim>\<open>trim\<close>) among the code units below 256.\<close>

definition isSpace :: "char \<Rightarrow> bool" where
  "isSpace c = List.member [9, 10, 11, 12, 13, 32, 160] (of_char c :: nat)"

definition trim :: "string \<Rightarrow> string" where
  "trim s = rev (dropWhile isSpace (rev (dropWhile isSpace s)))"

definition isDigit :: "char \<Rightarrow> bool" where
  "isDigit c = (let n = (of_char c :: nat) in 48 \<le> n \<and> n \<le> 57)"

definition nonDigit :: "char \<Rightarrow> bool" where
  "nonDigit c = (\<not> isDigit c)"

definition isLetter :: "char \<Rightarrow> bool" where
  "isLetter c = (let n = (of_char c :: nat) in (65 \<le> n \<and> n \<le> 90) \<or> (97 \<le> n \<and> n \<le> 122))"

text \<open>The class \<^verbatim>\<open>[a-zA-Z_]\<close>.\<close>

definition isLetterOrUnderscore :: "char \<Rightarrow> bool" where
  "isLetterOrUnderscore c = (isLetter c \<or> c = CHR ''_'')"

text \<open>The class \<^verbatim>\<open>[A-Za-z ]\<close>.\<close>

definition isLetterOrBlank :: "char \<Rightarrow> bool" where
  "isLetterOrBlank c = (isLetter c \<or> c = CHR '' '')"

text \<open>The word characters \<^verbatim>\<open>[A-Za-z0-9_]\<close> that \<^verbatim>\<open>\b\<close> looks at.\<close>

definition isWordChar :: "char \<Rightarrow> bool" where
  "isWordChar c = (isLetter c \<or> isDigit c \<or> c = CHR ''_'')"

text \<open>
  Doubles. The numbers the inferencer computes with are not negative, and each is the
  rational that the double denotes; \<open>Infinity\<close>, the rational \<open>2 ^ 1024\<close> that no
  finite double reaches, stands for the double of that name. \<open>toDouble q\<close> is the double
  nearest to the rational \<open>q\<close>, a tie going to the even significand: \<open>e\<close> is the
  binary exponent of \<open>q\<close> (at least \<open>-1022\<close>, below which the doubles are subnormal),
  \<open>2 ^ (e - 52)\<close> the distance of neighbouring doubles there, and a result of
  \<open>2 ^ 1024\<close> or more overflows.
\<close>

function floorLog2 :: "int \<Rightarrow> int" where
  "floorLog2 n = (if n < 2 then 0 else 1 + floorLog2 (n div 2))"
  by pat_completeness auto
termination
  by (relation "measure nat") auto

definition pow2 :: "int \<Rightarrow> rat" where
  "pow2 k = (if 0 \<le> k then 2 ^ nat k else 1 / 2 ^ nat (- k))"

definition binaryExponent :: "rat \<Rightarrow> int" where
  "binaryExponent q =
    (let (a, b) = quotient_of q;
         e0 = floorLog2 a - floorLog2 b
     in if pow2 e0 \<le> q then e0 else e0 - 1)"

definition roundHalfEven :: "rat \<Rightarrow> int" where
  "roundHalfEven m =
    (let f = \<lfloor>m\<rfloor>;
         r = m - of_int f
     in if r < 1 / 2 then f
        else if 1 / 2 < r then f + 1
        else if f mod 2 = 0 then f else f + 1)"

definition Infinity :: rat where
  "Infinity = 2 ^ 1024"

definition toDouble :: "rat \<Rightarrow> rat" where
  "toDouble q =
    (if q \<le> 0 then 0
     else (let e = max (binaryExponent q) (- 1022);
               n = roundHalfEven (q / pow2 (e - 52))
           in if 1023 < e \<or> (e = 1023 \<and> n = 2 ^ 53) then Infinity
              else of_int n * pow2 (e - 52)))"

text \<open>
  \<^verbatim>\<open>Number(t)\<close> for a text \<open>t\<close> captured by \<^verbatim>\<open>(\d+(?:\.\d+)?)\<close>, the only texts the
  inferencer converts: the double nearest to the value of the decimal literal.
\<close>

definition digitsValue :: "string \<Rightarrow> int" where
  "digitsValue ds = foldl (\<lambda>acc c. 10 * acc + (of_char c - 48)) 0 ds"

definition NumberOfDecimal :: "string \<Rightarrow> rat" where
  "NumberOfDecimal t =
    (let whole = takeWhile (\<lambda>c. c \<noteq> CHR ''.'') t;
         frac = drop (Suc (length whole)) t
     in toDouble (of_int (digitsValue whole) + of_int (digitsValue frac) / 10 ^ length frac))"

text \<open>The product \<^verbatim>\<open>a * b\<close> of two doubles that are not zero: the exact product, rounded.\<close>

definition timesDouble :: "rat \<Rightarrow> rat \<Rightarrow> rat" where
  "timesDouble a b = toDouble (a * b)"

text \<open>
  \<^verbatim>\<open>Math.round\<close>: the nearest integer, a half rounded up. The result is a double
  again (a double of \<open>2 ^ 52\<close> or more is an integer), and \<open>Infinity\<close>, an integer,
  stays.
\<close>

definition Math_round :: "rat \<Rightarrow> rat" where
  "Math_round x = of_int \<lfloor>x + 1 / 2\<rfloor>"


section \<open>Regular expressions\<close>

text \<open>
  The patterns of the inferencer use literals, quantified character classes (greedy or
  lazy, bounded or not), sequence, ordered alternation, the greedy option \<^verbatim>\<open>(?:...)?\<close>,
  capture groups and \<^verbatim>\<open>\b\<close>. \<open>Class p lo hi greedy\<close> is the class \<open>p\<close> repeated at
  least \<open>lo\<close> and at most \<open>hi\<close> times (\<open>None\<close>: no bound).

  \<open>rmatch r s i caps\<close> lists the ways \<open>r\<close> matches \<open>s\<close> from position \<open>i\<close>, as end
  position and captures, in the order in which a backtracking matcher tries them: the
  first element is the match the matcher reports when nothing follows the pattern.
\<close>

datatype regex =
    Lit string
  | Class "char \<Rightarrow> bool" nat "nat option" bool
  | Seq regex regex
  | Alt regex regex
  | Opt regex
  | Group nat regex
  | WordBoundary

type_synonym captures = "(nat \<times> nat \<times> nat) list"

definition isWordAt :: "string \<Rightarrow> int \<Rightarrow> bool" where
  "isWordAt s i = (0 \<le> i \<and> i < int (length s) \<and> isWordChar (s ! nat i))"

fun rmatch :: "regex \<Rightarrow> string \<Rightarrow> nat \<Rightarrow> captures \<Rightarrow> (nat \<times> captures) list" where
  "rmatch (Lit t) s i caps = (if startsWithAt s t i then [(i + length t, caps)] else [])"
| "rmatch (Class p lo hi greedy) s i caps =
    (let n = length (takeWhile p (drop i s));
         top = (case hi of None \<Rightarrow> n | Some h \<Rightarrow> min h n);
         counts = [lo..<Suc top]
     in map (\<lambda>k. (i + k, caps)) (if greedy then rev counts else counts))"
| "rmatch (Seq a b) s i caps =
    concat (map (\<lambda>(j, caps'). rmatch b s j caps') (rmatch a s i caps))"
| "rmatch (Alt a b) s i caps = rmatch a s i caps @ rmatch b s i caps"
| "rmatch (Opt a) s i caps = filter (\<lambda>(j, caps'). j \<noteq> i) (rmatch a s i caps) @ [(i, caps)]"
| "rmatch (Group k a) s i caps =
    map (\<lambda>(j, caps'). (j, (k, i, j) # caps')) (rmatch a s i caps)"
| "rmatch WordBoundary s i caps =
    (if isWordAt s (int i - 1) \<noteq> isWordAt s (int i) then [(i, caps)] else [])"

fun seqs :: "regex list \<Rightarrow> regex" where
  "seqs [] = Lit []"
| "seqs [r] = r"
| "seqs (r # rs) = Seq r (seqs rs)"

fun alts :: "string list \<Rightarrow> regex" where
  "alts [] = Lit []"
| "alts [t] = Lit t"
| "alts (t # ts) = Alt (Lit t) (alts ts)"

text \<open>A match: where it starts (\<^verbatim>\<open>m.index\<close>), where it ends, and its groups.\<close>

record rmatch_result =
  m_index :: nat
  m_end :: nat
  m_caps :: captures

text \<open>
  \<^verbatim>\<open>m[k]\<close>: the whole match for \<open>k = 0\<close>, else the text of group \<open>k\<close>. Every group of
  the source's patterns lies on every path through its pattern, so a group of a match is
  always set; the empty text stands for an unset one.
\<close>

definition group :: "string \<Rightarrow> rmatch_result \<Rightarrow> nat \<Rightarrow> string" where
  "group s m k =
    (if k = 0 then take (m_end m - m_index m) (drop (m_index m) s)
     else (case map_of (m_caps m) k of
             None \<Rightarrow> []
           | Some (a, b) \<Rightarrow> take (b - a) (drop a s)))"

text \<open>
  The scan over start positions, left to right, that \<^verbatim>\<open>exec\<close> performs; positions before
  \<open>lastIndex\<close> are skipped. With \<open>global\<close> the scan goes on after a match, from its end
  (one further when the match is empty), as \<^verbatim>\<open>matchAll\<close> does.
\<close>

fun scan :: "bool \<Rightarrow> regex \<Rightarrow> string \<Rightarrow> nat list \<Rightarrow> nat \<Rightarrow> rmatch_result list" where
  "scan global r s [] lastIndex = []"
| "scan global r s (i # starts) lastIndex =
    (if i < lastIndex then scan global r s starts lastIndex
     else (case rmatch r s i [] of
             [] \<Rightarrow> scan global r s starts lastIndex
           | (j, caps) # _ \<Rightarrow>
               \<lparr>m_index = i, m_end = j, m_caps = caps\<rparr> #
               (if global then scan global r s starts (if j = i then j + 1 else j) else [])))"

text \<open>\<^verbatim>\<open>Array.from(s.matchAll(r))\<close> for a pattern with the flag \<^verbatim>\<open>g\<close>.\<close>

definition matchAll :: "string \<Rightarrow> regex \<Rightarrow> rmatch_result list" where
  "matchAll s r = scan True r s [0..<Suc (length s)] 0"

text \<open>\<^verbatim>\<open>s.match(r)\<close> for a pattern without the flag \<^verbatim>\<open>g\<close>: the first match or \<^verbatim>\<open>null\<close>.\<close>

definition match :: "string \<Rightarrow> regex \<Rightarrow> rmatch_result option" where
  "match s r = (case scan False r s [0..<Suc (length s)] 0 of [] \<Rightarrow> None | m # _ \<Rightarrow> Some m)"

text \<open>\<^verbatim>\<open>r.test(s)\<close>.\<close>

definition test :: "regex \<Rightarrow> string \<Rightarrow> bool" where
  "test r s = (match s r \<noteq> None)"

text \<open>The pattern \<^verbatim>\<open>\d+(?:\.\d+)?\<close>, which every numeric group of the source contains.\<close>

definition decimalRe :: regex where
  "decimalRe = Seq (Class isDigit 1 None True) (Opt (Seq (Lit ''.'') (Class isDigit 1 None True)))"


section \<open>The natural-language rule inferencer: local heuristics\<close>

text \<open>
  \<^verbatim>\<open>convertNaturalLanguageToRules\<close> first extracts condition candidates from the lowercased
  prompt. A candidate is a condition with the position of its anchoring keyword.
\<close>

record candidate = condition +
  index :: int

record numberMatch =
  nm_raw :: string
  nm_value :: rat
  nm_index :: int

text \<open>The \<^verbatim>\<open>numberMatches\<close> array: every numeric token with its value and position.\<close>

definition numberMatches :: "string \<Rightarrow> numberMatch list" where
  "numberMatches lowercasePrompt =
    map (\<lambda>m. \<lparr>nm_raw = group lowercasePrompt m 0,
              nm_value = NumberOfDecimal (group lowercasePrompt m 1),
              nm_index = int (m_index m)\<rparr>)
        (matchAll lowercasePrompt (Group 1 decimalRe))"

record best =
  b_value :: rat
  b_index :: int
  b_dist :: int

text \<open>The inner loop of \<^verbatim>\<open>findNearestNumber\<close> over the numeric tokens, for a keyword at \<open>ki\<close>.\<close>

definition nearestTo :: "int \<Rightarrow> numberMatch list \<Rightarrow> best option \<Rightarrow> best option" where
  "nearestTo ki nms start =
    foldl (\<lambda>best nm.
             let dist = \<bar>nm_index nm - ki\<bar> in
             (case best of
                None \<Rightarrow> Some \<lparr>b_value = nm_value nm, b_index = nm_index nm, b_dist = dist\<rparr>
              | Some b \<Rightarrow>
                  if dist < b_dist b
                  then Some \<lparr>b_value = nm_value nm, b_index = nm_index nm, b_dist = dist\<rparr>
                  else best))
          start nms"

text \<open>The outer loop of \<^verbatim>\<open>findNearestNumber\<close> over the keyword variants.\<close>

fun findNearestLoop ::
  "string \<Rightarrow> numberMatch list \<Rightarrow> string list \<Rightarrow> best option \<Rightarrow> (rat \<times> int) option" where
  "findNearestLoop lowercasePrompt nms [] best = None"
| "findNearestLoop lowercasePrompt nms (kw # kws) best =
    (let ki = indexOf lowercasePrompt kw in
     if ki = -1 then findNearestLoop lowercasePrompt nms kws best
     else (case nearestTo ki nms best of
             Some b \<Rightarrow> Some (b_value b, b_index b)
           | None \<Rightarrow> findNearestLoop lowercasePrompt nms kws None))"

definition findNearestNumber :: "string \<Rightarrow> string list \<Rightarrow> (rat \<times> int) option" where
  "findNearestNumber lowercasePrompt keywordVariants =
    findNearestLoop lowercasePrompt (numberMatches lowercasePrompt) keywordVariants None"

text \<open>
  \<^verbatim>\<open>keywordVariants.map(k => lowercasePrompt.indexOf(k)).filter(i => i >= 0)[0] ?? 0\<close>.
\<close>

definition firstKeywordIndex :: "string \<Rightarrow> string list \<Rightarrow> int" where
  "firstKeywordIndex lowercasePrompt keywordVariants =
    (case filter (\<lambda>i. i \<ge> 0) (map (indexOf lowercasePrompt) keywordVariants) of
       [] \<Rightarrow> 0
     | i # _ \<Rightarrow> i)"

definition mkCandidate :: "string \<Rightarrow> string \<Rightarrow> rat \<Rightarrow> int \<Rightarrow> candidate" where
  "mkCandidate f opr v i = \<lparr>field = f, operator = opr, cvalue = VNum v, index = i\<rparr>"

text \<open>\<^verbatim>\<open>pushNumericCondition\<close>; the result is the list of candidates it pushes.\<close>

definition pushNumericCondition ::
  "string \<Rightarrow> string \<Rightarrow> string list \<Rightarrow> string \<Rightarrow> string list \<Rightarrow> candidate list" where
  "pushNumericCondition lowercasePrompt fld keywordVariants defaultOp preferGreaterKeywords =
    (case findNearestNumber lowercasePrompt keywordVariants of
       None \<Rightarrow> []
     | Some (nm_val, nm_idx) \<Rightarrow>
         (let ki = firstKeywordIndex lowercasePrompt keywordVariants;
              start = max 0 (min ki nm_idx - 20);
              fin = min (int (length lowercasePrompt)) (max ki nm_idx + 20);
              nearby = substring lowercasePrompt start fin;
              opr = (if includesStr nearby ''more than'' \<or> includesStr nearby ''over'' then ''>''
                     else if includesStr nearby ''less than'' \<or> includesStr nearby ''under''
                     then ''<'' else defaultOp)
          in [mkCandidate fld opr nm_val ki]))"

text \<open>The pattern \<^verbatim>\<open>/(?:spent|spending|spend)\D{0,20}?(\d+(?:\.\d+)?)/\<close>.\<close>

definition spendRe :: regex where
  "spendRe = seqs [alts [''spent'', ''spending'', ''spend''],
                   Class nonDigit 0 (Some 20) False, Group 1 decimalRe]"

text \<open>The pattern \<^verbatim>\<open>/over\s*(\d+(?:\.\d+)?)/\<close>.\<close>

definition overRe :: regex where
  "overRe = seqs [Lit ''over'', Class isSpace 0 None True, Group 1 decimalRe]"

text \<open>The spending family (the first \<^verbatim>\<open>if\<close> block after the helpers).\<close>

definition spendingCandidates :: "string \<Rightarrow> candidate list" where
  "spendingCandidates lowercasePrompt =
    (if includesStr lowercasePrompt ''spend'' \<or> includesStr lowercasePrompt ''spent''
        \<or> includesStr lowercasePrompt ''spending''
     then
       (let matched =
              (case match lowercasePrompt spendRe of
                 Some m1 \<Rightarrow>
                   Some (NumberOfDecimal (group lowercasePrompt m1 1),
                         int (m_index m1) +
                         (let k = indexOf (group lowercasePrompt m1 0) (group lowercasePrompt m1 1)
                          in if k \<ge> 0 then k else 0))
               | None \<Rightarrow>
                   (case match lowercasePrompt overRe of
                      Some m2 \<Rightarrow>
                        if includesStr lowercasePrompt ''spend''
                        then Some (NumberOfDecimal (group lowercasePrompt m2 1), int (m_index m2))
                        else None
                    | None \<Rightarrow> None))
        in case matched of
             Some (val, idx) \<Rightarrow>
               (let start = max 0 (idx - 20);
                    fin = min (int (length lowercasePrompt)) (idx + 20);
                    nearby = substring lowercasePrompt start fin;
                    opr = (if includesStr nearby ''more than'' \<or> includesStr nearby ''over''
                           then ''>''
                           else if includesStr nearby ''less than'' \<or> includesStr nearby ''under''
                           then ''<'' else ''>='')
                in [mkCandidate ''totalSpending'' opr val idx])
           | None \<Rightarrow>
               pushNumericCondition lowercasePrompt ''totalSpending''
                 [''spent'', ''spending'', ''spend'', ''over'', ''more than''] ''>=''
                 [''over'', ''more than''])
     else [])"

text \<open>The pattern \<^verbatim>\<open>/visited\D{0,20}?(\d+(?:\.\d+)?)/\<close>.\<close>

definition visitedRe :: regex where
  "visitedRe = seqs [Lit ''visited'', Class nonDigit 0 (Some 20) False, Group 1 decimalRe]"

text \<open>The pattern \<^verbatim>\<open>/(\d+(?:\.\d+)?)\s*(?:times|visits)/\<close>.\<close>

definition timesRe :: regex where
  "timesRe = seqs [Group 1 decimalRe, Class isSpace 0 None True, alts [''times'', ''visits'']]"

text \<open>The direct match of the visit family: the variable \<^verbatim>\<open>matched\<close> of its block.\<close>

definition visitMatched :: "string \<Rightarrow> (rat \<times> int) option" where
  "visitMatched lowercasePrompt =
    (case match lowercasePrompt visitedRe of
       Some m1 \<Rightarrow> Some (NumberOfDecimal (group lowercasePrompt m1 1), int (m_index m1))
     | None \<Rightarrow>
         (case match lowercasePrompt timesRe of
            Some m2 \<Rightarrow> Some (NumberOfDecimal (group lowercasePrompt m2 1), int (m_index m2))
          | None \<Rightarrow> None))"

text \<open>The text around the direct match in which the visit family looks for an operator.\<close>

definition visitNearby :: "string \<Rightarrow> int \<Rightarrow> string" where
  "visitNearby lowercasePrompt idx =
    (let start = max 0 (idx - 20);
         fin = min (int (length lowercasePrompt)) (idx + 20)
     in substring lowercasePrompt start fin)"

text \<open>The visit-count family (the second \<^verbatim>\<open>if\<close> block).\<close>

definition visitCandidates :: "string \<Rightarrow> candidate list" where
  "visitCandidates lowercasePrompt =
    (if includesStr lowercasePrompt ''visit'' \<or> includesStr lowercasePrompt ''visits''
        \<or> includesStr lowercasePrompt ''times'' \<or> includesStr lowercasePrompt ''came''
     then
       (case visitMatched lowercasePrompt of
          Some (val, idx) \<Rightarrow>
            (let nearby = visitNearby lowercasePrompt idx;
                 opr = (if includesStr nearby ''more than'' \<or> includesStr nearby ''over''
                        then ''>''
                        else if includesStr nearby ''less than'' then ''<'' else ''>='')
             in [mkCandidate ''visitCount'' opr val idx])
        | None \<Rightarrow>
            pushNumericCondition lowercasePrompt ''visitCount''
              [''visit'', ''visits'', ''times'', ''time'', ''came''] ''>=''
              [''more than'', ''over''])
     else [])"

text \<open>The recency family (the third \<^verbatim>\<open>if\<close> block).\<close>

definition recencyCandidates :: "string \<Rightarrow> candidate list" where
  "recencyCandidates lowercasePrompt =
    (if includesStr lowercasePrompt ''month'' \<or> includesStr lowercasePrompt ''months''
        \<or> includesStr lowercasePrompt ''day'' \<or> includesStr lowercasePrompt ''days''
        \<or> includesStr lowercasePrompt ''last''
     then
       (case findNearestNumber lowercasePrompt [''month'', ''months'', ''day'', ''days'', ''last''] of
          None \<Rightarrow> []
        | Some (timeNum, timeIdx) \<Rightarrow>
            (let unitKeyword =
                   (if list_ex (includesStr lowercasePrompt) [''month'', ''months'']
                    then ''month'' else ''day'');
                 ki = firstKeywordIndex lowercasePrompt
                        [''month'', ''months'', ''day'', ''days'', ''last''];
                 days = (if unitKeyword = ''month'' then timesDouble (Math_round timeNum) 30
                         else Math_round timeNum)
             in [mkCandidate ''lastVisit'' ''before'' days ki]))
     else [])"

text \<open>
  The pattern
  \<^verbatim>\<open>/([a-zA-Z_]+) (?:count|counts|number of|no of) (?:greater than|more than|over|less than|under|>=|>|<=|<|=)?\s*(\d+(?:\.\d+)?)/g\<close>.
\<close>

definition countPattern :: regex where
  "countPattern =
    seqs [Group 1 (Class isLetterOrUnderscore 1 None True), Lit '' '',
          alts [''count'', ''counts'', ''number of'', ''no of''], Lit '' '',
          Opt (alts [''greater than'', ''more than'', ''over'', ''less than'', ''under'',
                     ''>='', ''>'', ''<='', ''<'', ''='']),
          Class isSpace 0 None True, Group 2 decimalRe]"

text \<open>
  The loop over the matches of \<^verbatim>\<open>countPattern\<close>. The guard \<^verbatim>\<open>!Number.isNaN(num)\<close>
  holds for every decimal literal, and nothing in the \<^verbatim>\<open>try\<close> block throws.
\<close>

definition countCandidates :: "string \<Rightarrow> candidate list" where
  "countCandidates lowercasePrompt =
    concat (map (\<lambda>m.
      (let noun = group lowercasePrompt m 1;
           num = NumberOfDecimal (group lowercasePrompt m 2);
           fieldName = noun @ ''Count'';
           ki = int (m_index m);
           surrounding = substring lowercasePrompt (max 0 (ki - 20))
                           (ki + int (length (group lowercasePrompt m 0)) + 20);
           opr = (if includesStr surrounding ''greater than'' \<or> includesStr surrounding ''more than''
                     \<or> includesStr surrounding ''over'' then ''>''
                  else if includesStr surrounding ''less than'' \<or> includesStr surrounding ''under''
                  then ''<'' else ''>='')
       in [mkCandidate fieldName opr num ki]))
      (matchAll lowercasePrompt countPattern))"

text \<open>The pattern \<^verbatim>\<open>/([A-Za-z ]+?) between (\d+(?:\.\d+)?) and (\d+(?:\.\d+)?)/g\<close>.\<close>

definition betweenPattern :: regex where
  "betweenPattern =
    seqs [Group 1 (Class isLetterOrBlank 1 None False), Lit '' between '', Group 2 decimalRe,
          Lit '' and '', Group 3 decimalRe]"

text \<open>The loop over the matches of \<^verbatim>\<open>betweenPattern\<close>.\<close>

definition betweenCandidates :: "string \<Rightarrow> candidate list" where
  "betweenCandidates lowercasePrompt =
    concat (map (\<lambda>m.
      (let phrase = trim (group lowercasePrompt m 1);
           low = NumberOfDecimal (group lowercasePrompt m 2);
           high = NumberOfDecimal (group lowercasePrompt m 3)
       in if includesStr phrase ''spend'' \<or> includesStr phrase ''spent''
             \<or> includesStr phrase ''spending''
          then [mkCandidate ''totalSpending'' ''>='' low (int (m_index m)),
                mkCandidate ''totalSpending'' ''<='' high (int (m_index m) + 1)]
          else if includesStr phrase ''visit'' \<or> includesStr phrase ''visits''
                  \<or> includesStr phrase ''times''
          then [mkCandidate ''visitCount'' ''>='' low (int (m_index m)),
                mkCandidate ''visitCount'' ''<='' high (int (m_index m) + 1)]
          else []))
      (matchAll lowercasePrompt betweenPattern))"

text \<open>
  \<^verbatim>\<open>conditionCandidates\<close> after the five blocks, in the order of the pushes, and after
  \<^verbatim>\<open>sort((a, b) => a.index - b.index)\<close>, a stable sort by position.
\<close>

definition conditionCandidates :: "string \<Rightarrow> candidate list" where
  "conditionCandidates lowercasePrompt =
    spendingCandidates lowercasePrompt @ visitCandidates lowercasePrompt
    @ recencyCandidates lowercasePrompt @ countCandidates lowercasePrompt
    @ betweenCandidates lowercasePrompt"

definition sortedCandidates :: "string \<Rightarrow> candidate list" where
  "sortedCandidates lowercasePrompt = sort_key index (conditionCandidates lowercasePrompt)"

text \<open>The patterns \<^verbatim>\<open>/\bor\b/\<close> and \<^verbatim>\<open>/\band\b/\<close>.\<close>

definition orRe :: regex where
  "orRe = seqs [WordBoundary, Lit ''or'', WordBoundary]"

definition andRe :: regex where
  "andRe = seqs [WordBoundary, Lit ''and'', WordBoundary]"

text \<open>The connector loop: one connector for each pair of neighbours.\<close>

fun connectorsBetween :: "string \<Rightarrow> candidate list \<Rightarrow> string list" where
  "connectorsBetween lowercasePrompt (a # b # rest) =
    (let aIdx = index a + 0;
         bIdx = index b;
         between = trim (substring lowercasePrompt aIdx bIdx)
     in (if test orRe between then ''OR'' else ''AND'')
        # connectorsBetween lowercasePrompt (b # rest))"
| "connectorsBetween lowercasePrompt cs = []"

text \<open>
  The object \<^verbatim>\<open>rules\<close> when the local extraction is done (before the provider is
  consulted), with the \<^verbatim>\<open>provider: null\<close> of the final \<^verbatim>\<open>return\<close>.
\<close>

definition localRules :: "string \<Rightarrow> rule_document" where
  "localRules prompt =
    (let lowercasePrompt = toLowerCase prompt;
         cands = sortedCandidates lowercasePrompt;
         conds = map (\<lambda>c. \<lparr>field = field c, operator = operator c, cvalue = cvalue c\<rparr>) cands;
         conns = connectorsBetween lowercasePrompt cands;
         rules_connectors = (if length conns > 0 then Some conns else None);
         rules_logic =
           (if (rules_connectors = None \<or> rules_connectors = Some [])
               \<and> test orRe lowercasePrompt \<and> \<not> test andRe lowercasePrompt
            then ''OR'' else ''AND'')
     in \<lparr>logic = rules_logic, conditions = Some conds, connectors = rules_connectors,
         provider = None\<rparr>)"


section \<open>The natural-language rule inferencer: the provider\<close>

text \<open>
  The configuration that the source reads from the process environment; an unset variable
  is \<open>None\<close>, and a variable is truthy when it is set to a non-empty string.
\<close>

record env =
  ENABLE_PROVIDER_NL_TO_RULES :: "string option"
  PROVIDER_FIRST_NL_TO_RULES :: "string option"
  GEMINI_API_KEY :: "string option"
  GEMINI_API_URL :: "string option"
  OPENAI_API_KEY :: "string option"

definition truthy :: "string option \<Rightarrow> bool" where
  "truthy v = (case v of None \<Rightarrow> False | Some s \<Rightarrow> s \<noteq> [])"

definition falsy :: "json \<Rightarrow> bool" where
  "falsy j = (j = JNull \<or> j = JBool False \<or> j = JNum 0 \<or> j = JStr [])"

text \<open>
  The outside world. A request to the provider either fails (network error, status other
  than 2xx, timeout after 20 s) or is answered; \<open>Responded t\<close> carries the text \<open>t\<close> that
  \<^verbatim>\<open>callProviderApi\<close> makes of the answer. The provider is a function from the number of
  calls made before to the outcome of the next. \<^verbatim>\<open>JSON.parse\<close> is a parameter of the
  model, \<open>None\<close> when it throws.
\<close>

datatype post_result = Rejected | Responded string

datatype error =
    RequestFailed
  | EmptyProviderResponse
  | FailedToParseJSON
  | ProviderFailedAfterRetries
  | ZodError

text \<open>The effects: the calls of \<^verbatim>\<open>callProviderApi\<close> made and the milliseconds of backoff slept.\<close>

record world =
  calls :: nat
  slept :: nat

definition callProviderApi ::
  "env \<Rightarrow> (nat \<Rightarrow> post_result) \<Rightarrow> world \<Rightarrow> (error + string option) \<times> world" where
  "callProviderApi e post w =
    (let w' = w\<lparr>calls := Suc (calls w)\<rparr> in
     if truthy (GEMINI_API_URL e) \<and> truthy (GEMINI_API_KEY e) then
       (case post (calls w) of
          Rejected \<Rightarrow> (Inl RequestFailed, w')
        | Responded t \<Rightarrow> (Inr (Some t), w'))
     else if truthy (OPENAI_API_KEY e) then
       (case post (calls w) of
          Rejected \<Rightarrow> (Inl RequestFailed, w')
        | Responded t \<Rightarrow> (Inr (Some t), w'))
     else (Inr None, w'))"

text \<open>\<^verbatim>\<open>extractJsonFromText\<close>; \<open>JNull\<close> is its \<^verbatim>\<open>null\<close>.\<close>

definition extractJsonFromText :: "(string \<Rightarrow> json option) \<Rightarrow> string \<Rightarrow> json" where
  "extractJsonFromText JSON_parse text =
    (if text = [] then JNull
     else
       (let firstBrace = indexOf text ''{'';
            lastBrace = lastIndexOf text ''}'';
            fromBraces =
              (if firstBrace \<noteq> -1 \<and> lastBrace \<noteq> -1 \<and> lastBrace > firstBrace
               then JSON_parse (substring text firstBrace (lastBrace + 1)) else None)
        in case fromBraces of
             Some j \<Rightarrow> j
           | None \<Rightarrow>
               (let firstArray = indexOf text ''['';
                    lastArray = lastIndexOf text '']'';
                    fromBrackets =
                      (if firstArray \<noteq> -1 \<and> lastArray \<noteq> -1 \<and> lastArray > firstArray
                       then JSON_parse (substring text firstArray (lastArray + 1)) else None)
                in case fromBrackets of
                     Some j \<Rightarrow> j
                   | None \<Rightarrow>
                       (case JSON_parse (trim text) of Some j \<Rightarrow> j | None \<Rightarrow> JNull))))"

text \<open>The body of the \<^verbatim>\<open>try\<close> block in the loop of \<^verbatim>\<open>callProviderForRulesWithRetries\<close>.\<close>

definition attemptProvider ::
  "env \<Rightarrow> (string \<Rightarrow> json option) \<Rightarrow> (nat \<Rightarrow> post_result) \<Rightarrow> world
   \<Rightarrow> (error + json) \<times> world" where
  "attemptProvider e JSON_parse post w =
    (case callProviderApi e post w of
       (Inl err, w') \<Rightarrow> (Inl err, w')
     | (Inr None, w') \<Rightarrow> (Inl EmptyProviderResponse, w')
     | (Inr (Some text), w') \<Rightarrow>
         if text = [] then (Inl EmptyProviderResponse, w')
         else (let extracted = extractJsonFromText JSON_parse text in
               if falsy extracted then (Inl FailedToParseJSON, w')
               else (Inr extracted, w')))"

text \<open>
  The loop \<^verbatim>\<open>while (attempt < attempts)\<close>: a failed attempt sleeps
  \<open>2 ^ attempt * 200\<close> milliseconds and goes on; after the last one the last error is
  thrown.
\<close>

function retryLoop ::
  "env \<Rightarrow> (string \<Rightarrow> json option) \<Rightarrow> (nat \<Rightarrow> post_result) \<Rightarrow> nat \<Rightarrow> nat
   \<Rightarrow> error option \<Rightarrow> world \<Rightarrow> (error + json) \<times> world" where
  "retryLoop e JSON_parse post attempts attempt lastErr w =
    (if attempt < attempts then
       (case attemptProvider e JSON_parse post w of
          (Inr extracted, w') \<Rightarrow> (Inr extracted, w')
        | (Inl err, w') \<Rightarrow>
            retryLoop e JSON_parse post attempts (attempt + 1) (Some err)
              (w'\<lparr>slept := slept w' + 2 ^ (attempt + 1) * 200\<rparr>))
     else (Inl (case lastErr of Some err \<Rightarrow> err | None \<Rightarrow> ProviderFailedAfterRetries), w))"
  by pat_completeness auto
termination
  by (relation "measure (\<lambda>(e, JSON_parse, post, attempts, attempt, lastErr, w). attempts - attempt)")
     auto

definition callProviderForRulesWithRetries ::
  "env \<Rightarrow> (string \<Rightarrow> json option) \<Rightarrow> (nat \<Rightarrow> post_result) \<Rightarrow> nat \<Rightarrow> world
   \<Rightarrow> (error + json) \<times> world" where
  "callProviderForRulesWithRetries e JSON_parse post attempts w =
    retryLoop e JSON_parse post attempts 0 None w"

text \<open>
  The schemas. \<^verbatim>\<open>z.enum(['AND', 'OR'])\<close> accepts the two strings; \<^verbatim>\<open>ConditionSchema\<close>
  accepts an object with string \<^verbatim>\<open>field\<close> and \<^verbatim>\<open>operator\<close> and a string or number
  \<^verbatim>\<open>value\<close>; \<^verbatim>\<open>RulesSchema\<close> accepts an object with a \<^verbatim>\<open>logic\<close>, an array of
  conditions and, when the property is there, an array of connectors. A rejected value is
  the \<open>ZodError\<close> that \<^verbatim>\<open>parse\<close> throws.
\<close>

definition enumSchema :: "json \<Rightarrow> string option" where
  "enumSchema j =
    (case j of
       JStr s \<Rightarrow> if s = ''AND'' \<or> s = ''OR'' then Some s else None
     | _ \<Rightarrow> None)"

definition ConditionSchema :: "json \<Rightarrow> condition option" where
  "ConditionSchema j =
    (case j of
       JObj kv \<Rightarrow>
         (case (map_of kv ''field'', map_of kv ''operator'', map_of kv ''value'') of
            (Some (JStr f), Some (JStr opr), Some (JStr v)) \<Rightarrow>
              Some \<lparr>field = f, operator = opr, cvalue = VStr v\<rparr>
          | (Some (JStr f), Some (JStr opr), Some (JNum v)) \<Rightarrow>
              Some \<lparr>field = f, operator = opr, cvalue = VNum v\<rparr>
          | _ \<Rightarrow> None)
     | _ \<Rightarrow> None)"

definition RulesSchema_parse :: "json \<Rightarrow> error + (string \<times> condition list \<times> string list option)" where
  "RulesSchema_parse j =
    (case j of
       JObj kv \<Rightarrow>
         (case (map_of kv ''logic'', map_of kv ''conditions'') of
            (Some lg, Some (JArr cs)) \<Rightarrow>
              (case (enumSchema lg, those (map ConditionSchema cs)) of
                 (Some l, Some conds) \<Rightarrow>
                   (case map_of kv ''connectors'' of
                      None \<Rightarrow> Inr (l, conds, None)
                    | Some (JArr ks) \<Rightarrow>
                        (case those (map enumSchema ks) of
                           Some conns \<Rightarrow> Inr (l, conds, Some conns)
                         | None \<Rightarrow> Inl ZodError)
                    | Some _ \<Rightarrow> Inl ZodError)
               | _ \<Rightarrow> Inl ZodError)
          | _ \<Rightarrow> Inl ZodError)
     | _ \<Rightarrow> Inl ZodError)"

text \<open>
  One of the two \<^verbatim>\<open>try\<close> blocks of \<^verbatim>\<open>convertNaturalLanguageToRules\<close>: \<open>Some\<close> document
  when the block returns, \<open>None\<close> when it falls through (the response has no condition) or
  its \<^verbatim>\<open>catch\<close> swallows an error.
\<close>

definition tryProvider ::
  "env \<Rightarrow> (string \<Rightarrow> json option) \<Rightarrow> (nat \<Rightarrow> post_result) \<Rightarrow> nat \<Rightarrow> string \<Rightarrow> world
   \<Rightarrow> rule_document option \<times> world" where
  "tryProvider e JSON_parse post attempts providerName w =
    (case callProviderForRulesWithRetries e JSON_parse post attempts w of
       (Inl err, w') \<Rightarrow> (None, w')
     | (Inr providerResp, w') \<Rightarrow>
         (case RulesSchema_parse providerResp of
            Inl err \<Rightarrow> (None, w')
          | Inr (l, conds, conns) \<Rightarrow>
              if length conds > 0
              then (Some \<lparr>logic = l, conditions = Some conds, connectors = conns,
                          provider = Some providerName\<rparr>, w')
              else (None, w')))"

definition enableProvider :: "env \<Rightarrow> bool" where
  "enableProvider e = (ENABLE_PROVIDER_NL_TO_RULES e = Some ''true'')"

text \<open>Whether \<^verbatim>\<open>GEMINI_API_KEY || OPENAI_API_KEY\<close> is truthy.\<close>

definition apiKey :: "env \<Rightarrow> bool" where
  "apiKey e = (truthy (GEMINI_API_KEY e) \<or> truthy (OPENAI_API_KEY e))"

definition providerFirst :: "env \<Rightarrow> bool" where
  "providerFirst e =
    (PROVIDER_FIRST_NL_TO_RULES e = Some ''true''
     \<or> (enableProvider e \<and> truthy (GEMINI_API_KEY e)))"

definition providerName :: "env \<Rightarrow> string" where
  "providerName e =
    (if truthy (GEMINI_API_KEY e) then ''GEMINI''
     else if truthy (OPENAI_API_KEY e) then ''OPENAI'' else ''NONE'')"

text \<open>
  \<^verbatim>\<open>convertNaturalLanguageToRules\<close>: the document it resolves to and the effects it had.
  Every call that can throw stands in one of the two \<^verbatim>\<open>try\<close> blocks, so the function
  has no failing outcome.
\<close>

definition convertNaturalLanguageToRules ::
  "env \<Rightarrow> (string \<Rightarrow> json option) \<Rightarrow> (nat \<Rightarrow> post_result) \<Rightarrow> string
   \<Rightarrow> rule_document \<times> world" where
  "convertNaturalLanguageToRules e JSON_parse post prompt =
    (let rules = localRules prompt;
         w0 = \<lparr>calls = 0, slept = 0\<rparr>;
         (first, w1) =
           (if enableProvider e \<and> apiKey e \<and> providerFirst e
            then tryProvider e JSON_parse post 3 (providerName e) w0
            else (None, w0))
     in case first of
          Some doc \<Rightarrow> (doc, w1)
        | None \<Rightarrow>
            (let weak =
                   (case conditions rules of
                      None \<Rightarrow> True
                    | Some cs \<Rightarrow> \<not> length cs > 0 \<or> (length cs > 0 \<and> length cs < 2));
                 (second, w2) =
                   (if weak \<and> enableProvider e \<and> apiKey e
                    then tryProvider e JSON_parse post 2 (providerName e) w1
                    else (None, w1))
             in case second of
                  Some doc \<Rightarrow> (doc, w2)
                | None \<Rightarrow> (rules\<lparr>provider := None\<rparr>, w2)))"


text \<open>
  A provider answer that does not lead to a document: the request fails, or no truthy JSON
  value can be extracted from the text, or the extracted value is rejected by the schema.
\<close>

definition failing :: "(string \<Rightarrow> json option) \<Rightarrow> post_result \<Rightarrow> bool" where
  "failing JSON_parse r =
    (case r of
       Rejected \<Rightarrow> True
     | Responded text \<Rightarrow>
         (let extracted = extractJsonFromText JSON_parse text
          in falsy extracted \<or> isl (RulesSchema_parse extracted)))"


section \<open>Example configurations\<close>

text \<open>No variable set: the provider is disabled.\<close>

definition env_local :: env where
  "env_local =
    \<lparr>ENABLE_PROVIDER_NL_TO_RULES = None, PROVIDER_FIRST_NL_TO_RULES = None,
     GEMINI_API_KEY = None, GEMINI_API_URL = None, OPENAI_API_KEY = None\<rparr>"

text \<open>The provider enabled with a Gemini key and endpoint; the provider-first flag is not set.\<close>

definition env_gemini :: env where
  "env_gemini =
    \<lparr>ENABLE_PROVIDER_NL_TO_RULES = Some ''true'', PROVIDER_FIRST_NL_TO_RULES = None,
     GEMINI_API_KEY = Some ''key'', GEMINI_API_URL = Some ''https://gemini.example/generate'',
     OPENAI_API_KEY = None\<rparr>"

text \<open>A Gemini key and endpoint, but the enable flag is not set.\<close>

definition env_key_only :: env where
  "env_key_only =
    \<lparr>ENABLE_PROVIDER_NL_TO_RULES = None, PROVIDER_FIRST_NL_TO_RULES = None,
     GEMINI_API_KEY = Some ''key'', GEMINI_API_URL = Some ''https://gemini.example/generate'',
     OPENAI_API_KEY = None\<rparr>"

text \<open>A provider every request to which times out, and a parser that is never given JSON.\<close>

definition provider_down :: "nat \<Rightarrow> post_result" where
  "provider_down k = Rejected"

definition parse_nothing :: "string \<Rightarrow> json option" where
  "parse_nothing t = None"

text \<open>
  A provider that answers every request with the same JSON text, one condition and two
  connectors, and what \<^verbatim>\<open>JSON.parse\<close> makes of that text.
\<close>

definition provider_text :: string where
  \<open>provider_text =
    ''{"logic":"AND","conditions":[{"field":"email","operator":"contains","value":"gmail"}],"connectors":["OR","AND"]}''\<close>

definition provider_json :: json where
  "provider_json =
    JObj [(''logic'', JStr ''AND''),
          (''conditions'',
             JArr [JObj [(''field'', JStr ''email''), (''operator'', JStr ''contains''),
                         (''value'', JStr ''gmail'')]]),
          (''connectors'', JArr [JStr ''OR'', JStr ''AND''])]"

definition provider_up :: "nat \<Rightarrow> post_result" where
  "provider_up k = Responded provider_text"

definition parse_example :: "string \<Rightarrow> json option" where
  "parse_example t = (if t = provider_text then Some provider_json else None)"

definition provider_document :: rule_document where
  "provider_document =
    \<lparr>logic = ''AND'',
     conditions = Some [\<lparr>field = ''email'', operator = ''contains'', cvalue = VStr ''gmail''\<rparr>],
     connectors = Some [''OR'', ''AND''], provider = Some ''GEMINI''\<rparr>"

text \<open>The documents of the local extraction that the examples below meet.\<close>

definition spent_or_visited :: rule_document where
  "spent_or_visited =
    \<lparr>logic = ''AND'',
     conditions =
       Some [\<lparr>field = ''totalSpending'', operator = ''>'', cvalue = VNum 500\<rparr>,
             \<lparr>field = ''visitCount'', operator = ''>'', cvalue = VNum 3\<rparr>],
     connectors = Some [''OR''], provider = None\<rparr>"

definition lastVisit_before :: "rat \<Rightarrow> rule_document" where
  "lastVisit_before days =
    \<lparr>logic = ''AND'',
     conditions = Some [\<lparr>field = ''lastVisit'', operator = ''before'', cvalue = VNum days\<rparr>],
     connectors = None, provider = None\<rparr>"

definition spent_between :: rule_document where
  "spent_between =
    \<lparr>logic = ''AND'',
     conditions =
       Some [\<lparr>field = ''totalSpending'', operator = ''>='', cvalue = VNum 100\<rparr>,
             \<lparr>field = ''totalSpending'', operator = ''<='', cvalue = VNum 500\<rparr>,
             \<lparr>field = ''totalSpending'', operator = ''>='', cvalue = VNum 100\<rparr>],
     connectors = Some [''AND'', ''AND''], provider = None\<rparr>"


section \<open>Properties of the compilers\<close>

lemma conditionWhere_unsupported:
  "\<not> supported (field c) (operator c) \<Longrightarrow> conditionWhere N c = NoConstraint"
  by (simp add: supported_def conditionWhere_def Let_def)

lemma constraints_buildWhereClause:
  "conditions r = Some cs \<Longrightarrow> constraints (buildWhereClause N r) = map (conditionWhere N) cs"
  by (simp add: buildWhereClause_def Let_def)

lemma constraints_buildWhereClauseForSegment:
  "conditions r = Some cs \<Longrightarrow>
   constraints (buildWhereClauseForSegment N r) = map (conditionWhereForSegment N) cs"
  by (simp add: buildWhereClauseForSegment_def Let_def)

lemma conditionWhereForSegment_eq:
  "field c \<noteq> ''lastVisit'' \<Longrightarrow> conditionWhereForSegment N c = conditionWhere N c"
  by (simp add: conditionWhereForSegment_def conditionWhere_def)

lemma conditionWhereForSegment_lastVisit:
  "field c = ''lastVisit'' \<Longrightarrow> conditionWhereForSegment N c = NoConstraint"
  by (simp add: conditionWhereForSegment_def)


subsection \<open>The compiler on arbitrary values\<close>

lemma conditionWhere_json_returns:
  assumes "condition \<noteq> JNull"
    and "\<not> isl (Number_json N Nobj (getProperty condition ''value''))"
  shows "\<exists>k. conditionWhere_json N Nobj condition = Inr k
           \<and> (\<not> supported_json condition \<longrightarrow> k = Unconstrained)"
proof -
  obtain n where n: "Number_json N Nobj (getProperty condition ''value'') = Inr n"
    using assms(2) by (cases "Number_json N Nobj (getProperty condition ''value'')") auto
  show ?thesis
    using assms(1) n
    unfolding conditionWhere_json_def supported_json_def withNumber_def
    by (auto simp: Let_def supported_def split: option.splits json.splits)
qed

lemma conditionWhere_json_null:
  "conditionWhere_json N Nobj JNull = Inl TypeError"
  by (simp add: conditionWhere_json_def)

lemma mapE_returns:
  "\<forall>x \<in> set xs. \<exists>y. f x = Inr y \<and> P x y
   \<Longrightarrow> \<exists>ys. mapE f xs = Inr ys \<and> length ys = length xs \<and> (\<forall>i < length xs. P (xs ! i) (ys ! i))"
proof (induction xs)
  case Nil
  then show ?case by simp
next
  case (Cons x xs)
  then obtain y where y: "f x = Inr y" "P x y" by auto
  from Cons obtain ys where ys: "mapE f xs = Inr ys" "length ys = length xs"
    "\<forall>i < length xs. P (xs ! i) (ys ! i)" by auto
  have "\<forall>i < length (x # xs). P ((x # xs) ! i) ((y # ys) ! i)"
    using y ys by (auto simp: nth_Cons split: nat.splits)
  then show ?case using y ys by simp
qed

lemma mapE_raises:
  "x \<in> set xs \<Longrightarrow> f x = Inl TypeError \<Longrightarrow> mapE f xs = Inl TypeError"
proof (induction xs)
  case Nil
  then show ?case by simp
next
  case (Cons a xs)
  show ?case
  proof (cases "f a")
    case (Inl err)
    then show ?thesis by (cases err) simp
  next
    case (Inr y)
    with Cons have "mapE f xs = Inl TypeError" by auto
    with Inr show ?thesis by simp
  qed
qed

lemma mapE_map:
  "\<forall>x \<in> set xs. f (g x) = Inr (h x) \<Longrightarrow> mapE f (map g xs) = Inr (map h xs)"
  by (induction xs) auto

lemma conditionWhere_json_typed:
  "conditionWhere_json N Nobj (json_of_condition c) = Inr (constraint_to_json (conditionWhere N c))"
  unfolding conditionWhere_json_def conditionWhere_def json_of_condition_def getProperty_def
    withNumber_def Number_json_def Number_def
  by (auto simp: Let_def json_of_value_def split: jsvalue.splits)

lemma buildWhereClause_json_typed:
  "buildWhereClause_json N Nobj (json_of_rules r) = Inr (where_to_json (buildWhereClause N r))"
proof (cases "conditions r")
  case None
  then show ?thesis
    by (simp add: buildWhereClause_json_def buildWhereClause_def json_of_rules_def getProperty_def
        split: option.splits)
next
  case (Some cs)
  have m: "mapE (conditionWhere_json N Nobj) (map json_of_condition cs)
        = Inr (map (\<lambda>c. constraint_to_json (conditionWhere N c)) cs)"
    by (rule mapE_map) (simp add: conditionWhere_json_typed)
  from Some show ?thesis
    by (simp add: buildWhereClause_json_def buildWhereClause_def json_of_rules_def getProperty_def m
        Let_def comp_def split: option.splits)
qed

lemma buildWhereClause_json_returns:
  assumes "rules \<noteq> JNull"
    and "\<forall>cs. getProperty rules ''conditions'' = Some (JArr cs)
           \<longrightarrow> (\<forall>c \<in> set cs. c \<noteq> JNull
                  \<and> \<not> isl (Number_json N Nobj (getProperty c ''value'')))"
  shows "\<exists>w. buildWhereClause_json N Nobj rules = Inr w
          \<and> (\<forall>cs. getProperty rules ''conditions'' = Some (JArr cs)
                 \<longrightarrow> length (constraints_json w) = length cs
                     \<and> (\<forall>i < length cs. \<not> supported_json (cs ! i)
                            \<longrightarrow> constraints_json w ! i = Unconstrained))"
proof (cases "\<exists>cs. getProperty rules ''conditions'' = Some (JArr cs)")
  case False
  then have "buildWhereClause_json N Nobj rules = Inr WhereJ_empty"
    using assms(1)
    by (auto simp: buildWhereClause_json_def split: option.splits json.splits)
  with False show ?thesis by simp
next
  case True
  then obtain cs where cs: "getProperty rules ''conditions'' = Some (JArr cs)" by blast
  with assms(2) have "\<forall>c \<in> set cs. \<exists>k. conditionWhere_json N Nobj c = Inr k
      \<and> (\<not> supported_json c \<longrightarrow> k = Unconstrained)"
    by (auto intro: conditionWhere_json_returns)
  from mapE_returns [OF this] obtain ks where ks:
    "mapE (conditionWhere_json N Nobj) cs = Inr ks" "length ks = length cs"
    "\<forall>i < length cs. \<not> supported_json (cs ! i) \<longrightarrow> ks ! i = Unconstrained"
    by blast
  show ?thesis
    using assms(1) cs ks by (simp add: buildWhereClause_json_def)
qed

lemma buildWhereClause_json_null_entry:
  assumes "getProperty rules ''conditions'' = Some (JArr cs)" and "JNull \<in> set cs"
  shows "buildWhereClause_json N Nobj rules = Inl TypeError"
proof -
  have "mapE (conditionWhere_json N Nobj) cs = Inl TypeError"
    using assms(2) by (rule mapE_raises) (rule conditionWhere_json_null)
  with assms(1) show ?thesis
    by (simp add: buildWhereClause_json_def)
qed

lemma Number_json_primitive:
  "(\<forall>xs. v \<noteq> Some (JArr xs)) \<Longrightarrow> (\<forall>kv. v \<noteq> Some (JObj kv))
   \<Longrightarrow> \<not> isl (Number_json N Nobj v)"
  by (auto simp: Number_json_def split: option.splits json.splits)

lemma unknownField_compiled:
  "buildWhereClause_json N Nobj unknownField_rules = Inr (WhereJ_AND [Unconstrained])"
  by (simp add: buildWhereClause_json_def unknownField_rules_def getProperty_def
      conditionWhere_json_def)

lemma nullEntry_conditions:
  "getProperty nullEntry_rules ''conditions'' = Some (JArr [JNull])"
  by (simp add: nullEntry_rules_def getProperty_def)

lemma unknownField_conditions:
  "getProperty unknownField_rules ''conditions''
   = Some (JArr [JObj [(''field'', JStr ''unknownField''), (''operator'', JStr ''>''),
                       (''value'', JNum 1)]])"
  by (simp add: unknownField_rules_def getProperty_def)


section \<open>Properties of the local extraction\<close>

lemma length_connectorsBetween: "length (connectorsBetween lp cs) = length cs - 1"
  by (induction lp cs rule: connectorsBetween.induct) (simp_all add: Let_def)

lemma connectorsBetween_Nil: "connectorsBetween lp cs = [] \<longleftrightarrow> length cs \<le> 1"
  by (induction lp cs rule: connectorsBetween.induct) (simp_all add: Let_def)

lemma conditions_localRules:
  "conditions (localRules p) =
     Some (map (\<lambda>c. \<lparr>field = field c, operator = operator c, cvalue = cvalue c\<rparr>)
            (sortedCandidates (toLowerCase p)))"
  by (simp add: localRules_def Let_def)

lemma connectors_localRules:
  "connectors (localRules p) =
     (if 1 < length (sortedCandidates (toLowerCase p))
      then Some (connectorsBetween (toLowerCase p) (sortedCandidates (toLowerCase p)))
      else None)"
  by (simp add: localRules_def Let_def connectorsBetween_Nil)

lemma logic_localRules:
  "logic (localRules p) =
     (if \<not> 1 < length (sortedCandidates (toLowerCase p))
         \<and> test orRe (toLowerCase p) \<and> \<not> test andRe (toLowerCase p)
      then ''OR'' else ''AND'')"
  by (simp add: localRules_def Let_def connectorsBetween_Nil)

lemma provider_localRules: "provider (localRules p) = None"
  by (simp add: localRules_def Let_def)

lemma localRules_provider_update: "(localRules p)\<lparr>provider := None\<rparr> = localRules p"
  by (simp add: localRules_def Let_def)

lemma localRules_connectors_length:
  "connectors (localRules p) = Some ks \<Longrightarrow> conditions (localRules p) = Some cs \<Longrightarrow>
   length ks = length cs - 1 \<and> 2 \<le> length cs"
  by (auto simp: connectors_localRules conditions_localRules length_connectorsBetween
        split: if_splits)

lemma mkCandidate_sel [simp]:
  "field (mkCandidate f opr v i) = f" "operator (mkCandidate f opr v i) = opr"
  "cvalue (mkCandidate f opr v i) = VNum v" "index (mkCandidate f opr v i) = i"
  by (simp_all add: mkCandidate_def)

lemma pushNumericCondition_shape:
  "c \<in> set (pushNumericCondition lp fld kws dflt pref) \<Longrightarrow>
   field c = fld \<and> (operator c = ''>'' \<or> operator c = ''<'' \<or> operator c = dflt)"
  by (auto simp: pushNumericCondition_def Let_def split: option.splits prod.splits if_splits)

lemma spendingCandidates_shape:
  "c \<in> set (spendingCandidates lp) \<Longrightarrow>
   field c = ''totalSpending''
   \<and> (operator c = ''>'' \<or> operator c = ''<'' \<or> operator c = ''>='')"
  unfolding spendingCandidates_def Let_def
  by (auto split: option.splits prod.splits if_splits dest: pushNumericCondition_shape)

lemma visitCandidates_shape:
  "c \<in> set (visitCandidates lp) \<Longrightarrow>
   field c = ''visitCount''
   \<and> (operator c = ''>'' \<or> operator c = ''<'' \<or> operator c = ''>='')"
  unfolding visitCandidates_def Let_def
  by (auto split: option.splits prod.splits if_splits dest: pushNumericCondition_shape)

lemma recencyCandidates_None:
  "findNearestNumber lp [''month'', ''months'', ''day'', ''days'', ''last''] = None \<Longrightarrow>
   recencyCandidates lp = []"
  unfolding recencyCandidates_def by simp

lemma recencyCandidates_Some:
  "findNearestNumber lp [''month'', ''months'', ''day'', ''days'', ''last''] = Some (n, i) \<Longrightarrow>
   recencyCandidates lp =
     (if includesStr lp ''month'' \<or> includesStr lp ''months'' \<or> includesStr lp ''day''
         \<or> includesStr lp ''days'' \<or> includesStr lp ''last''
      then [mkCandidate ''lastVisit'' ''before''
              (if includesStr lp ''month'' \<or> includesStr lp ''months''
               then timesDouble (Math_round n) 30 else Math_round n)
              (firstKeywordIndex lp [''month'', ''months'', ''day'', ''days'', ''last''])]
      else [])"
  unfolding recencyCandidates_def by (simp add: Let_def)

lemma recencyCandidates_shape:
  assumes "c \<in> set (recencyCandidates lp)"
  shows "field c = ''lastVisit'' \<and> operator c = ''before''
   \<and> (\<exists>n i. findNearestNumber lp [''month'', ''months'', ''day'', ''days'', ''last'']
               = Some (n, i)
          \<and> cvalue c = VNum (if includesStr lp ''month'' \<or> includesStr lp ''months''
                             then timesDouble (Math_round n) 30 else Math_round n))"
proof (cases "findNearestNumber lp [''month'', ''months'', ''day'', ''days'', ''last'']")
  case None
  from assms show ?thesis
    by (simp add: recencyCandidates_None [OF None])
next
  case (Some a)
  obtain n i where a: "a = (n, i)" by (cases a)
  from Some a have s: "findNearestNumber lp [''month'', ''months'', ''day'', ''days'', ''last'']
      = Some (n, i)" by simp
  from assms have "c = mkCandidate ''lastVisit'' ''before''
              (if includesStr lp ''month'' \<or> includesStr lp ''months''
               then timesDouble (Math_round n) 30 else Math_round n)
              (firstKeywordIndex lp [''month'', ''months'', ''day'', ''days'', ''last''])"
    by (simp add: recencyCandidates_Some [OF s] split: if_splits)
  with s show ?thesis by simp
qed

lemma Count_not_lastVisit: "noun @ ''Count'' \<noteq> ''lastVisit''"
proof
  assume "noun @ ''Count'' = ''lastVisit''"
  then have "rev (noun @ ''Count'') = rev ''lastVisit''" by simp
  then show False by simp
qed

lemma countCandidates_shape:
  "c \<in> set (countCandidates lp) \<Longrightarrow>
   field c \<noteq> ''lastVisit''
   \<and> (operator c = ''>'' \<or> operator c = ''<'' \<or> operator c = ''>='')"
  unfolding countCandidates_def Let_def
  by (auto simp: Count_not_lastVisit split: if_splits)

lemma betweenCandidates_shape:
  "c \<in> set (betweenCandidates lp) \<Longrightarrow>
   field c \<noteq> ''lastVisit'' \<and> (operator c = ''>='' \<or> operator c = ''<='')"
  unfolding betweenCandidates_def Let_def
  by (auto split: if_splits)

lemma sortedCandidates_cases:
  "c \<in> set (sortedCandidates lp) \<Longrightarrow>
   c \<in> set (recencyCandidates lp)
   \<or> (field c \<noteq> ''lastVisit''
       \<and> (operator c = ''>'' \<or> operator c = ''<'' \<or> operator c = ''>=''
           \<or> operator c = ''<=''))"
  unfolding sortedCandidates_def conditionCandidates_def
  using spendingCandidates_shape [of c lp] visitCandidates_shape [of c lp]
    countCandidates_shape [of c lp] betweenCandidates_shape [of c lp]
  by auto

lemma indexOf_range: "indexOf s t = -1 \<or> 0 \<le> indexOf s t"
  by (simp add: indexOf_def split: list.splits)

lemma nearestTo_inv:
  assumes "case start of None \<Rightarrow> True
           | Some b \<Rightarrow> b_dist b = \<bar>b_index b - ki\<bar>
               \<and> (\<exists>nm \<in> A. b_value b = nm_value nm \<and> b_index b = nm_index nm)
               \<and> (\<forall>nm \<in> A. b_dist b \<le> \<bar>nm_index nm - ki\<bar>)"
    and "start = None \<longrightarrow> A = {}"
  shows "case nearestTo ki nms start of
           None \<Rightarrow> start = None \<and> nms = []
         | Some b \<Rightarrow> b_dist b = \<bar>b_index b - ki\<bar>
               \<and> (\<exists>nm \<in> A \<union> set nms. b_value b = nm_value nm \<and> b_index b = nm_index nm)
               \<and> (\<forall>nm \<in> A \<union> set nms. b_dist b \<le> \<bar>nm_index nm - ki\<bar>)"
  using assms
proof (induction nms arbitrary: start A)
  case Nil
  then show ?case by (auto simp: nearestTo_def split: option.splits)
next
  case (Cons nm nms)
  let ?dist = "\<bar>nm_index nm - ki\<bar>"
  let ?new = "\<lparr>b_value = nm_value nm, b_index = nm_index nm, b_dist = ?dist\<rparr>"
  let ?next = "(case start of None \<Rightarrow> Some ?new
                | Some b \<Rightarrow> if ?dist < b_dist b then Some ?new else start)"
  have step: "nearestTo ki (nm # nms) start = nearestTo ki nms ?next"
    by (simp add: nearestTo_def Let_def)
  have inv: "case ?next of None \<Rightarrow> True
           | Some b \<Rightarrow> b_dist b = \<bar>b_index b - ki\<bar>
               \<and> (\<exists>x \<in> insert nm A. b_value b = nm_value x \<and> b_index b = nm_index x)
               \<and> (\<forall>x \<in> insert nm A. b_dist b \<le> \<bar>nm_index x - ki\<bar>)"
    using Cons.prems by (cases start) (auto split: if_splits)
  have ne: "?next = None \<longrightarrow> insert nm A = {}"
    by (cases start) (auto split: if_splits)
  have nn: "?next \<noteq> None"
    by (cases start) (auto split: if_splits)
  from Cons.IH [OF inv ne] nn show ?case
    unfolding step by (auto split: option.splits)
qed

lemma nearestTo_None:
  "case nearestTo ki nms None of
     None \<Rightarrow> nms = []
   | Some b \<Rightarrow> (\<exists>nm \<in> set nms. b_value b = nm_value nm \<and> b_index b = nm_index nm)
               \<and> (\<forall>nm \<in> set nms. \<bar>b_index b - ki\<bar> \<le> \<bar>nm_index nm - ki\<bar>)"
  using nearestTo_inv [where start = None and ki = ki and A = "{}" and nms = nms]
  by (auto split: option.splits)

lemma findNearestLoop_nearest:
  "findNearestLoop lp nms kws None = Some (n, i) \<Longrightarrow>
   (\<exists>nm \<in> set nms. n = nm_value nm \<and> i = nm_index nm)
   \<and> (\<forall>nm \<in> set nms. \<bar>i - firstKeywordIndex lp kws\<bar>
                          \<le> \<bar>nm_index nm - firstKeywordIndex lp kws\<bar>)"
proof (induction kws)
  case Nil
  then show ?case by simp
next
  case (Cons kw kws)
  show ?case
  proof (cases "indexOf lp kw = -1")
    case True
    with Cons.prems have "findNearestLoop lp nms kws None = Some (n, i)"
      by (simp add: Let_def)
    from Cons.IH [OF this] True show ?thesis
      by (simp add: firstKeywordIndex_def)
  next
    case False
    with indexOf_range [of lp kw] have nonneg: "0 \<le> indexOf lp kw" by simp
    then have first: "firstKeywordIndex lp (kw # kws) = indexOf lp kw"
      by (simp add: firstKeywordIndex_def)
    show ?thesis
    proof (cases "nearestTo (indexOf lp kw) nms None")
      case None
      with nearestTo_None [where ki = "indexOf lp kw" and nms = nms] have e: "nms = []" by simp
      have "findNearestLoop lp [] ks None = None" for ks
        by (induction ks) (simp_all add: Let_def nearestTo_def)
      with e False None Cons.prems show ?thesis
        by (simp add: Let_def)
    next
      case (Some b)
      with False Cons.prems have "n = b_value b" "i = b_index b"
        by (simp_all add: Let_def)
      with Some nearestTo_None [where ki = "indexOf lp kw" and nms = nms] first show ?thesis
        by auto
    qed
  qed
qed

lemma findNearestNumber_nearest:
  "findNearestNumber lp kws = Some (n, i) \<Longrightarrow>
   (\<exists>nm \<in> set (numberMatches lp). n = nm_value nm \<and> i = nm_index nm)
   \<and> (\<forall>nm \<in> set (numberMatches lp).
         \<bar>i - firstKeywordIndex lp kws\<bar> \<le> \<bar>nm_index nm - firstKeywordIndex lp kws\<bar>)"
  unfolding findNearestNumber_def by (rule findNearestLoop_nearest)

lemma rmatch_Group_caps:
  "(j, caps) \<in> set (rmatch (Group k r) s i cs) \<Longrightarrow> map_of caps k = Some (i, j)"
  by auto

lemma scan_Group:
  "m \<in> set (scan g (Group k r) s starts lastIndex) \<Longrightarrow>
   map_of (m_caps m) k = Some (m_index m, m_end m)"
proof (induction starts arbitrary: lastIndex)
  case Nil
  then show ?case by simp
next
  case (Cons i starts)
  show ?case
  proof (cases "i < lastIndex")
    case True
    with Cons.prems have "m \<in> set (scan g (Group k r) s starts lastIndex)" by simp
    then show ?thesis by (rule Cons.IH)
  next
    case False
    show ?thesis
    proof (cases "rmatch (Group k r) s i []")
      case Nil
      with False Cons.prems have "m \<in> set (scan g (Group k r) s starts lastIndex)" by simp
      then show ?thesis by (rule Cons.IH)
    next
      case (Cons a as)
      obtain j caps where a: "a = (j, caps)" by (cases a)
      with Cons have "(j, caps) \<in> set (rmatch (Group k r) s i [])" by simp
      then have caps: "map_of caps k = Some (i, j)" by (rule rmatch_Group_caps)
      from False Cons a Cons.prems have
        "m = \<lparr>m_index = i, m_end = j, m_caps = caps\<rparr>
         \<or> m \<in> set (scan g (Group k r) s starts (if j = i then j + 1 else j))"
        by (auto split: if_splits)
      then show ?thesis
      proof
        assume "m = \<lparr>m_index = i, m_end = j, m_caps = caps\<rparr>"
        with caps show ?thesis by simp
      next
        assume "m \<in> set (scan g (Group k r) s starts (if j = i then j + 1 else j))"
        then show ?thesis by (rule Cons.IH)
      qed
    qed
  qed
qed

lemma numberMatches_value:
  "nm \<in> set (numberMatches lp) \<Longrightarrow> nm_value nm = NumberOfDecimal (nm_raw nm)"
proof -
  assume "nm \<in> set (numberMatches lp)"
  then obtain m where m: "m \<in> set (matchAll lp (Group 1 decimalRe))"
    and nm: "nm = \<lparr>nm_raw = group lp m 0, nm_value = NumberOfDecimal (group lp m 1),
                     nm_index = int (m_index m)\<rparr>"
    by (auto simp: numberMatches_def)
  from m have "map_of (m_caps m) 1 = Some (m_index m, m_end m)"
    unfolding matchAll_def by (rule scan_Group)
  then have "group lp m 1 = group lp m 0"
    by (simp add: group_def)
  with nm show ?thesis by simp
qed

lemma localRules_lastVisit:
  assumes "conditions (localRules p) = Some cs" and "c \<in> set cs"
  shows "operator c \<noteq> ''after''
    \<and> (field c = ''lastVisit'' \<longrightarrow>
         operator c = ''before''
         \<and> (\<exists>nm \<in> set (numberMatches (toLowerCase p)).
                nm_value nm = NumberOfDecimal (nm_raw nm)
                \<and> (\<forall>x \<in> set (numberMatches (toLowerCase p)).
                      \<bar>nm_index nm - firstKeywordIndex (toLowerCase p)
                                        [''month'', ''months'', ''day'', ''days'', ''last'']\<bar>
                      \<le> \<bar>nm_index x - firstKeywordIndex (toLowerCase p)
                                        [''month'', ''months'', ''day'', ''days'', ''last'']\<bar>)
                \<and> cvalue c = VNum (if includesStr (toLowerCase p) ''month''
                                        \<or> includesStr (toLowerCase p) ''months''
                                     then timesDouble (Math_round (nm_value nm)) 30
                                     else Math_round (nm_value nm))))"
proof -
  from assms obtain k where k: "k \<in> set (sortedCandidates (toLowerCase p))"
    and c: "c = \<lparr>field = field k, operator = operator k, cvalue = cvalue k\<rparr>"
    by (auto simp: conditions_localRules)
  from sortedCandidates_cases [OF k] show ?thesis
  proof
    assume "k \<in> set (recencyCandidates (toLowerCase p))"
    from recencyCandidates_shape [OF this] obtain n i
      where f: "field k = ''lastVisit''" and o: "operator k = ''before''"
        and near: "findNearestNumber (toLowerCase p)
                     [''month'', ''months'', ''day'', ''days'', ''last''] = Some (n, i)"
        and v: "cvalue k = VNum (if includesStr (toLowerCase p) ''month''
                                     \<or> includesStr (toLowerCase p) ''months''
                                  then timesDouble (Math_round n) 30 else Math_round n)"
      by auto
    from findNearestNumber_nearest [OF near] obtain nm
      where nm: "nm \<in> set (numberMatches (toLowerCase p))"
        and n: "n = nm_value nm" and i: "i = nm_index nm"
        and least: "\<forall>x \<in> set (numberMatches (toLowerCase p)).
              \<bar>i - firstKeywordIndex (toLowerCase p)
                       [''month'', ''months'', ''day'', ''days'', ''last'']\<bar>
              \<le> \<bar>nm_index x - firstKeywordIndex (toLowerCase p)
                       [''month'', ''months'', ''day'', ''days'', ''last'']\<bar>"
      by auto
    from numberMatches_value [OF nm] have raw: "nm_value nm = NumberOfDecimal (nm_raw nm)" .
    from nm raw least v c f o show ?thesis
      unfolding n i by auto
  next
    assume "field k \<noteq> ''lastVisit'' \<and>
      (operator k = ''>'' \<or> operator k = ''<'' \<or> operator k = ''>='' \<or> operator k = ''<='')"
    with c show ?thesis by auto
  qed
qed


section \<open>Properties of the provider orchestration\<close>

lemma tryProvider_provider:
  "tryProvider e P post n name w = (Some d, w') \<Longrightarrow> provider d = Some name"
  by (auto simp: tryProvider_def split: prod.splits sum.splits if_splits)

lemma convert_cases:
  "fst (convertNaturalLanguageToRules e P post p) = localRules p
   \<or> provider (fst (convertNaturalLanguageToRules e P post p)) = Some (providerName e)"
  by (auto simp: convertNaturalLanguageToRules_def Let_def localRules_provider_update
        split: prod.splits option.splits if_splits dest: tryProvider_provider)

lemma convert_local:
  "provider (fst (convertNaturalLanguageToRules e P post p)) = None \<Longrightarrow>
   fst (convertNaturalLanguageToRules e P post p) = localRules p"
  using convert_cases [of e P post p] by auto

lemma convert_disabled:
  "\<not> enableProvider e \<Longrightarrow>
   convertNaturalLanguageToRules e P post p = (localRules p, \<lparr>calls = 0, slept = 0\<rparr>)"
  by (simp add: convertNaturalLanguageToRules_def Let_def localRules_provider_update)

lemma callProviderApi_calls:
  "callProviderApi e post w = (r, w') \<Longrightarrow> w' = w\<lparr>calls := Suc (calls w)\<rparr>"
  by (auto simp: callProviderApi_def Let_def split: if_splits post_result.splits)

lemma attemptProvider_calls:
  "attemptProvider e P post w = (r, w') \<Longrightarrow> w' = w\<lparr>calls := Suc (calls w)\<rparr>"
  by (auto simp: attemptProvider_def Let_def
        split: prod.splits sum.splits option.splits if_splits dest: callProviderApi_calls)

lemma attemptProvider_failing:
  "failing P (post (calls w)) \<Longrightarrow> attemptProvider e P post w = (Inr j, w') \<Longrightarrow>
   isl (RulesSchema_parse j)"
  by (auto simp: attemptProvider_def callProviderApi_def failing_def Let_def
        split: prod.splits sum.splits option.splits if_splits post_result.splits)

lemma retryLoop_calls:
  "retryLoop e P post attempts attempt lastErr w = (r, w') \<Longrightarrow>
   calls w \<le> calls w' \<and> calls w' \<le> calls w + (attempts - attempt)
   \<and> (attempt < attempts \<longrightarrow> calls w < calls w')"
proof (induction e P post attempts attempt lastErr w arbitrary: r w' rule: retryLoop.induct)
  case (1 e P post attempts attempt lastErr w)
  show ?case
  proof (cases "attempt < attempts")
    case False
    with "1.prems" show ?thesis by simp
  next
    case True
    obtain a wa where a: "attemptProvider e P post w = (a, wa)"
      by (cases "attemptProvider e P post w")
    from attemptProvider_calls [OF a] have wa: "calls wa = Suc (calls w)" by simp
    show ?thesis
    proof (cases a)
      case (Inr j)
      with True a "1.prems" wa show ?thesis by auto
    next
      case (Inl err)
      with True a "1.prems" have rec:
        "retryLoop e P post attempts (attempt + 1) (Some err)
           (wa\<lparr>slept := slept wa + 2 ^ (attempt + 1) * 200\<rparr>) = (r, w')"
        by simp
      from "1.IH" [OF True a [symmetric] Inl rec] wa True show ?thesis
        by auto
    qed
  qed
qed

lemma retryLoop_failing:
  "\<forall>k. failing P (post k) \<Longrightarrow>
   retryLoop e P post attempts attempt lastErr w = (Inr j, w') \<Longrightarrow>
   isl (RulesSchema_parse j)"
proof (induction e P post attempts attempt lastErr w arbitrary: j w' rule: retryLoop.induct)
  case (1 e P post attempts attempt lastErr w)
  show ?case
  proof (cases "attempt < attempts")
    case False
    with "1.prems" show ?thesis by simp
  next
    case True
    obtain a wa where a: "attemptProvider e P post w = (a, wa)"
      by (cases "attemptProvider e P post w")
    show ?thesis
    proof (cases a)
      case (Inr j')
      with True a "1.prems" have "j' = j" by simp
      with Inr a "1.prems"(1) attemptProvider_failing [of P post w e j wa] show ?thesis
        by simp
    next
      case (Inl err)
      with True a "1.prems" have rec:
        "retryLoop e P post attempts (attempt + 1) (Some err)
           (wa\<lparr>slept := slept wa + 2 ^ (attempt + 1) * 200\<rparr>) = (Inr j, w')"
        by simp
      from "1.IH" [OF True a [symmetric] Inl "1.prems"(1) rec] show ?thesis .
    qed
  qed
qed

lemma tryProvider_calls:
  assumes "tryProvider e P post n name w = (r, w')"
  shows "calls w \<le> calls w' \<and> calls w' \<le> calls w + n \<and> (0 < n \<longrightarrow> calls w < calls w')"
proof -
  obtain a wa where a: "retryLoop e P post n 0 None w = (a, wa)"
    by (cases "retryLoop e P post n 0 None w")
  with assms have "w' = wa"
    by (auto simp: tryProvider_def callProviderForRulesWithRetries_def
          split: sum.splits prod.splits if_splits)
  with retryLoop_calls [OF a] show ?thesis by simp
qed

lemma tryProvider_failing:
  assumes "\<forall>k. failing P (post k)"
  shows "fst (tryProvider e P post n name w) = None"
proof -
  obtain a wa where a: "retryLoop e P post n 0 None w = (a, wa)"
    by (cases "retryLoop e P post n 0 None w")
  show ?thesis
  proof (cases a)
    case (Inl err)
    with a show ?thesis
      by (simp add: tryProvider_def callProviderForRulesWithRetries_def)
  next
    case (Inr j)
    with a retryLoop_failing [OF assms, of e n 0 None w j wa]
    have "isl (RulesSchema_parse j)" by simp
    then obtain err where "RulesSchema_parse j = Inl err"
      by (cases "RulesSchema_parse j") auto
    with a Inr show ?thesis
      by (simp add: tryProvider_def callProviderForRulesWithRetries_def)
  qed
qed

lemma convert_calls: "calls (snd (convertNaturalLanguageToRules e P post p)) \<le> 5"
proof -
  let ?w0 = "\<lparr>calls = 0, slept = 0\<rparr>"
  obtain r1 w1 where t1: "tryProvider e P post 3 (providerName e) ?w0 = (r1, w1)"
    by (cases "tryProvider e P post 3 (providerName e) ?w0")
  obtain r2 w2 where t2: "tryProvider e P post 2 (providerName e) w1 = (r2, w2)"
    by (cases "tryProvider e P post 2 (providerName e) w1")
  obtain r3 w3 where t3: "tryProvider e P post 2 (providerName e) ?w0 = (r3, w3)"
    by (cases "tryProvider e P post 2 (providerName e) ?w0")
  from tryProvider_calls [OF t1] have c1: "calls w1 \<le> 3" by simp
  from tryProvider_calls [OF t2] c1 have c2: "calls w2 \<le> 5" by simp
  from tryProvider_calls [OF t3] have c3: "calls w3 \<le> 2" by simp
  from t1 t2 t3 c1 c2 c3 show ?thesis
    by (auto simp: convertNaturalLanguageToRules_def Let_def split: option.splits if_splits)
qed

lemma convert_failing:
  assumes "\<forall>k. failing P (post k)"
  shows "fst (convertNaturalLanguageToRules e P post p) = localRules p"
proof -
  let ?w0 = "\<lparr>calls = 0, slept = 0\<rparr>"
  obtain r1 w1 where t1: "tryProvider e P post 3 (providerName e) ?w0 = (r1, w1)"
    by (cases "tryProvider e P post 3 (providerName e) ?w0")
  obtain r2 w2 where t2: "tryProvider e P post 2 (providerName e) w1 = (r2, w2)"
    by (cases "tryProvider e P post 2 (providerName e) w1")
  obtain r3 w3 where t3: "tryProvider e P post 2 (providerName e) ?w0 = (r3, w3)"
    by (cases "tryProvider e P post 2 (providerName e) ?w0")
  from tryProvider_failing [OF assms, of e 3 "providerName e" ?w0] t1
  have r1: "r1 = None" by simp
  from tryProvider_failing [OF assms, of e 2 "providerName e" w1] t2
  have r2: "r2 = None" by simp
  from tryProvider_failing [OF assms, of e 2 "providerName e" ?w0] t3
  have r3: "r3 = None" by simp
  from t1 t2 t3 r1 r2 r3 show ?thesis
    by (auto simp: convertNaturalLanguageToRules_def Let_def localRules_provider_update
          split: option.splits if_splits)
qed

lemma convert_provider_first:
  assumes "enableProvider e" and "truthy (GEMINI_API_KEY e)"
  shows "1 \<le> calls (snd (convertNaturalLanguageToRules e P post p))"
proof -
  let ?w0 = "\<lparr>calls = 0, slept = 0\<rparr>"
  obtain r1 w1 where t1: "tryProvider e P post 3 (providerName e) ?w0 = (r1, w1)"
    by (cases "tryProvider e P post 3 (providerName e) ?w0")
  obtain r2 w2 where t2: "tryProvider e P post 2 (providerName e) w1 = (r2, w2)"
    by (cases "tryProvider e P post 2 (providerName e) w1")
  from tryProvider_calls [OF t1] have c1: "1 \<le> calls w1" by simp
  from tryProvider_calls [OF t2] c1 have c2: "1 \<le> calls w2" by simp
  from assms have g: "enableProvider e \<and> apiKey e \<and> providerFirst e"
    by (simp add: apiKey_def providerFirst_def)
  from t1 t2 c1 c2 g show ?thesis
    by (auto simp: convertNaturalLanguageToRules_def Let_def split: option.splits if_splits)
qed


section \<open>The examples, evaluated\<close>

lemma enableProvider_env_local: "\<not> enableProvider env_local"
  by (simp add: enableProvider_def env_local_def)

lemma enableProvider_env_key_only:
  "\<not> enableProvider env_key_only \<and> ENABLE_PROVIDER_NL_TO_RULES env_key_only = None
   \<and> truthy (GEMINI_API_KEY env_key_only)"
  by (simp add: enableProvider_def env_key_only_def truthy_def)

lemma enableProvider_env_gemini:
  "enableProvider env_gemini \<and> truthy (GEMINI_API_KEY env_gemini)
   \<and> PROVIDER_FIRST_NL_TO_RULES env_gemini = None"
  by (simp add: enableProvider_def env_gemini_def truthy_def)

lemma failing_provider_down: "failing parse_nothing (provider_down k)"
  by (simp add: failing_def provider_down_def)

lemma localRules_spent_between:
  "localRules ''customers who spent between 100 and 500'' = spent_between"
  by code_simp

lemma localRules_two_months: "localRules ''in the last 2 months'' = lastVisit_before 60"
  by code_simp

lemma localRules_ten_days: "localRules ''in the last 10 days'' = lastVisit_before 10"
  by code_simp

lemma localRules_fraction: "localRules ''last 2.5 days'' = lastVisit_before 3"
  by code_simp

lemma numberMatches_fraction:
  "numberMatches (toLowerCase ''last 2.5 days'')
     = [\<lparr>nm_raw = ''2.5'', nm_value = 5 / 2, nm_index = 5\<rparr>]"
  by code_simp

lemma numberMatches_two_months:
  "numberMatches (toLowerCase ''in the last 2 months'')
     = [\<lparr>nm_raw = ''2'', nm_value = 2, nm_index = 12\<rparr>]"
  by code_simp

lemma localRules_half_day:
  "localRules ''last 0.499999999999999999 days'' = lastVisit_before 1"
  by code_simp

lemma localRules_many_months:
  "localRules ''in the last 9007199254740991 months''
     = lastVisit_before 270215977642229728"
  by code_simp

lemma includes_two_months: "includesStr (toLowerCase ''in the last 2 months'') ''month''"
  by code_simp

lemma localRules_spent_or_visited:
  "localRules ''spent over 500 or visited more than 3 times'' = spent_or_visited"
  by code_simp

lemma visit_fallback_under:
  "visitMatched ''under 5 visit'' = None
   \<and> visitCandidates ''under 5 visit'' = [mkCandidate ''visitCount'' ''<'' 5 8]
   \<and> includesStr ''under 5 visit'' ''visit''
   \<and> includesStr ''under 5 visit'' ''under''
   \<and> \<not> includesStr ''under 5 visit'' ''less than''
   \<and> \<not> includesStr ''under 5 visit'' ''more than''
   \<and> \<not> includesStr ''under 5 visit'' ''over''
   \<and> conditions (localRules ''under 5 visit'')
       = Some [\<lparr>field = ''visitCount'', operator = ''<'', cvalue = VNum 5\<rparr>]"
  by code_simp

lemma visit_direct_under:
  "visitMatched ''visited under 5 times'' = Some (5, 0)
   \<and> visitCandidates ''visited under 5 times'' = [mkCandidate ''visitCount'' ''>='' 5 0]
   \<and> includesStr (visitNearby ''visited under 5 times'' 0) ''under''
   \<and> \<not> includesStr (visitNearby ''visited under 5 times'' 0) ''less than''
   \<and> \<not> includesStr (visitNearby ''visited under 5 times'' 0) ''more than''
   \<and> \<not> includesStr (visitNearby ''visited under 5 times'' 0) ''over''"
  by code_simp

lemma convert_provider_up:
  "convertNaturalLanguageToRules env_gemini parse_example provider_up
     ''spent over 500 or visited more than 3 times''
   = (provider_document, \<lparr>calls = 1, slept = 0\<rparr>)"
  by code_simp

lemma convert_provider_down:
  "convertNaturalLanguageToRules env_gemini parse_nothing provider_down ''spent 5''
   = (localRules ''spent 5'', \<lparr>calls = 5, slept = 4000\<rparr>)"
  by code_simp

lemma convert_key_only:
  "convertNaturalLanguageToRules env_key_only parse_example provider_up ''hello''
   = (localRules ''hello'', \<lparr>calls = 0, slept = 0\<rparr>)"
  by code_simp

lemma visit_direct_less_than:
  "visitMatched ''visited less than 5 times'' = Some (5, 0)
   \<and> visitCandidates ''visited less than 5 times'' = [mkCandidate ''visitCount'' ''<'' 5 0]
   \<and> includesStr (visitNearby ''visited less than 5 times'' 0) ''less than''"
  by code_simp

lemma localRules_or_so:
  "localRules ''spent 500 or so'' =
   \<lparr>logic = ''OR'',
    conditions = Some [\<lparr>field = ''totalSpending'', operator = ''>='', cvalue = VNum 500\<rparr>],
    connectors = None, provider = None\<rparr>
   \<and> test orRe (toLowerCase ''spent 500 or so'')
   \<and> \<not> test andRe (toLowerCase ''spent 500 or so'')"
  by code_simp

lemma test_or_spent_or_visited:
  "test orRe (toLowerCase ''spent over 500 or visited more than 3 times'')
   \<and> \<not> test andRe (toLowerCase ''spent over 500 or visited more than 3 times'')"
  by code_simp


section \<open>The claims\<close>

text \<open>
  Claim C1, amended. \<^verbatim>\<open>buildWhereClause\<close> does raise: on \<^verbatim>\<open>null\<close>, on a condition
  list with a \<^verbatim>\<open>null\<close> entry, whose \<^verbatim>\<open>field\<close> it reads, and where the conversion of
  a condition's value to a number raises. On every other value it returns a filter: if the
  rules are not \<^verbatim>\<open>null\<close>, and no entry of a condition array is \<^verbatim>\<open>null\<close> or has a value
  whose conversion raises, the compiler returns, with one constraint per entry, and the
  constraint of an entry whose field is not recognised, or whose operator is not supported
  for its field, is the empty one. The conversion raises on no absent value, \<^verbatim>\<open>null\<close>,
  boolean, number or string; so on the rule documents of the data model the compiler
  returns, and what it returns is the filter of \<open>buildWhereClause\<close> above. The document
  \<^verbatim>\<open>{logic:'AND', conditions:[{field:'unknownField', operator:'>', value:1}]}\<close> compiles
  to \<^verbatim>\<open>{AND: [{}]}\<close>, which selects every record.
\<close>

theorem buildWhereClause_json_permissive:
  "(rules \<noteq> JNull
      \<and> (\<forall>cs. getProperty rules ''conditions'' = Some (JArr cs)
             \<longrightarrow> (\<forall>c \<in> set cs. c \<noteq> JNull
                    \<and> \<not> isl (Number_json N Nobj (getProperty c ''value''))))
     \<longrightarrow> (\<exists>w. buildWhereClause_json N Nobj rules = Inr w
            \<and> (\<forall>cs. getProperty rules ''conditions'' = Some (JArr cs)
                   \<longrightarrow> length (constraints_json w) = length cs
                       \<and> (\<forall>i < length cs. \<not> supported_json (cs ! i)
                              \<longrightarrow> constraints_json w ! i = Unconstrained))))
   \<and> (\<forall>v. (\<forall>xs. v \<noteq> Some (JArr xs)) \<and> (\<forall>kv. v \<noteq> Some (JObj kv))
          \<longrightarrow> \<not> isl (Number_json N Nobj v))
   \<and> buildWhereClause_json N Nobj (json_of_rules r) = Inr (where_to_json (buildWhereClause N r))
   \<and> buildWhereClause_json N Nobj JNull = Inl TypeError
   \<and> (\<forall>cs. getProperty rules ''conditions'' = Some (JArr cs) \<and> JNull \<in> set cs
          \<longrightarrow> buildWhereClause_json N Nobj rules = Inl TypeError)
   \<and> buildWhereClause_json N Nobj unknownField_rules = Inr (WhereJ_AND [Unconstrained])
   \<and> selects sat (WhereJ_AND [Unconstrained]) x"
proof -
  have returns: "(rules \<noteq> JNull
      \<and> (\<forall>cs. getProperty rules ''conditions'' = Some (JArr cs)
             \<longrightarrow> (\<forall>c \<in> set cs. c \<noteq> JNull
                    \<and> \<not> isl (Number_json N Nobj (getProperty c ''value''))))
     \<longrightarrow> (\<exists>w. buildWhereClause_json N Nobj rules = Inr w
            \<and> (\<forall>cs. getProperty rules ''conditions'' = Some (JArr cs)
                   \<longrightarrow> length (constraints_json w) = length cs
                       \<and> (\<forall>i < length cs. \<not> supported_json (cs ! i)
                              \<longrightarrow> constraints_json w ! i = Unconstrained))))"
    using buildWhereClause_json_returns [of rules N Nobj] by blast
  have primitive: "\<forall>v. (\<forall>xs. v \<noteq> Some (JArr xs)) \<and> (\<forall>kv. v \<noteq> Some (JObj kv))
          \<longrightarrow> \<not> isl (Number_json N Nobj v)"
    using Number_json_primitive [of _ N Nobj] by blast
  have null: "buildWhereClause_json N Nobj JNull = Inl TypeError"
    by (simp add: buildWhereClause_json_def)
  have entry: "\<forall>cs. getProperty rules ''conditions'' = Some (JArr cs) \<and> JNull \<in> set cs
          \<longrightarrow> buildWhereClause_json N Nobj rules = Inl TypeError"
    using buildWhereClause_json_null_entry [of rules _ N Nobj] by blast
  have every: "selects sat (WhereJ_AND [Unconstrained]) x"
    by (simp add: selects_def holds_def)
  from returns primitive buildWhereClause_json_typed null entry unknownField_compiled every
  show ?thesis by (intro conjI)
qed

theorem buildWhereClause_json_permissive_witness:
  "unknownField_rules \<noteq> JNull
   \<and> getProperty unknownField_rules ''conditions''
     = Some (JArr [JObj [(''field'', JStr ''unknownField''), (''operator'', JStr ''>''),
                         (''value'', JNum 1)]])
   \<and> \<not> isl (Number_json (\<lambda>t. None) (\<lambda>v. Inl TypeError) (Some (JNum 1)))
   \<and> \<not> supported_json (JObj [(''field'', JStr ''unknownField''), (''operator'', JStr ''>''),
                              (''value'', JNum 1)])
   \<and> buildWhereClause_json (\<lambda>t. None) (\<lambda>v. Inl TypeError) unknownField_rules
     = Inr (WhereJ_AND [Unconstrained])
   \<and> length (constraints_json (WhereJ_AND [Unconstrained])) = 1
   \<and> constraints_json (WhereJ_AND [Unconstrained]) ! 0 = Unconstrained
   \<and> getProperty nullEntry_rules ''conditions'' = Some (JArr [JNull])
   \<and> JNull \<in> set [JNull]
   \<and> buildWhereClause_json (\<lambda>t. None) (\<lambda>v. Inl TypeError) nullEntry_rules = Inl TypeError"
proof -
  note unknown = buildWhereClause_json_permissive
    [where rules = unknownField_rules and N = "\<lambda>t. None" and Nobj = "\<lambda>v. Inl TypeError"]
  note nullEntry = buildWhereClause_json_permissive
    [where rules = nullEntry_rules and N = "\<lambda>t. None" and Nobj = "\<lambda>v. Inl TypeError"]
  have compiled: "buildWhereClause_json (\<lambda>t. None) (\<lambda>v. Inl TypeError) unknownField_rules
      = Inr (WhereJ_AND [Unconstrained])"
    by (rule unknown [THEN conjunct2, THEN conjunct2, THEN conjunct2, THEN conjunct2,
          THEN conjunct2, THEN conjunct1])
  have "\<forall>cs. getProperty nullEntry_rules ''conditions'' = Some (JArr cs) \<and> JNull \<in> set cs
      \<longrightarrow> buildWhereClause_json (\<lambda>t. None) (\<lambda>v. Inl TypeError) nullEntry_rules = Inl TypeError"
    by (rule nullEntry [THEN conjunct2, THEN conjunct2, THEN conjunct2, THEN conjunct2,
          THEN conjunct1])
  then have raised: "buildWhereClause_json (\<lambda>t. None) (\<lambda>v. Inl TypeError) nullEntry_rules
      = Inl TypeError"
    using nullEntry_conditions by simp
  have "unknownField_rules \<noteq> JNull"
    by (simp add: unknownField_rules_def)
  moreover have "\<not> isl (Number_json (\<lambda>t. None) (\<lambda>v. Inl TypeError) (Some (JNum 1)))"
    by (simp add: Number_json_def)
  moreover have "\<not> supported_json (JObj [(''field'', JStr ''unknownField''),
      (''operator'', JStr ''>''), (''value'', JNum 1)])"
    by (simp add: supported_json_def supported_def getProperty_def)
  moreover have "length (constraints_json (WhereJ_AND [Unconstrained])) = 1"
    by simp
  moreover have "constraints_json (WhereJ_AND [Unconstrained]) ! 0 = Unconstrained"
    by simp
  moreover have "JNull \<in> set [JNull]"
    by simp
  moreover note compiled raised unknownField_conditions nullEntry_conditions
  ultimately show ?thesis
    by (intro conjI)
qed

text \<open>
  The rules \<^verbatim>\<open>{logic:'AND', conditions:[null]}\<close> are an object, as the routes require, and
  the compiler raises on them.
\<close>

theorem buildWhereClause_null_entry_counterexample:
  "buildWhereClause_json (\<lambda>t. None) (\<lambda>v. Inr None)
     (JObj [(''logic'', JStr ''AND''), (''conditions'', JArr [JNull])])
   = Inl TypeError"
  by (simp add: buildWhereClause_json_def getProperty_def conditionWhere_json_def)

text \<open>
  Claim C5. The compiled filter does not depend on the connectors: two rule documents with
  the same logic flag and the same condition sequence compile to the same filter, whatever
  their connectors (and provider tags) are.
\<close>

theorem buildWhereClause_ignores_connectors:
  "logic r1 = logic r2 \<Longrightarrow> conditions r1 = conditions r2 \<Longrightarrow>
   buildWhereClause N r1 = buildWhereClause N r2"
  by (simp add: buildWhereClause_def split: option.splits)

theorem buildWhereClause_ignores_connectors_witness:
  "buildWhereClause (\<lambda>s. None)
     \<lparr>logic = ''AND'',
      conditions = Some [\<lparr>field = ''totalSpending'', operator = ''>'', cvalue = VNum 500\<rparr>,
                         \<lparr>field = ''visitCount'', operator = ''>'', cvalue = VNum 3\<rparr>],
      connectors = Some [''OR''], provider = None\<rparr>
   = buildWhereClause (\<lambda>s. None)
     \<lparr>logic = ''AND'',
      conditions = Some [\<lparr>field = ''totalSpending'', operator = ''>'', cvalue = VNum 500\<rparr>,
                         \<lparr>field = ''visitCount'', operator = ''>'', cvalue = VNum 3\<rparr>],
      connectors = None, provider = None\<rparr>"
  by (rule buildWhereClause_ignores_connectors) simp_all

text \<open>
  Claim C10. On a rule document none of whose conditions has the field \<^verbatim>\<open>lastVisit\<close>
  the segment compiler and the campaign compiler return the same filter; and a
  \<^verbatim>\<open>lastVisit\<close> condition of any rule document is compiled by the segment compiler to
  the empty constraint.
\<close>

theorem buildWhereClauseForSegment_agreement:
  "((\<forall>cs. conditions r = Some cs \<longrightarrow> (\<forall>c \<in> set cs. field c \<noteq> ''lastVisit'')) \<longrightarrow>
      buildWhereClauseForSegment N r = buildWhereClause N r)
   \<and> (conditions r' = Some cs' \<and> i < length cs' \<and> field (cs' ! i) = ''lastVisit'' \<longrightarrow>
        constraints (buildWhereClauseForSegment N r') ! i = NoConstraint)"
proof (intro conjI impI)
  assume free: "\<forall>cs. conditions r = Some cs \<longrightarrow> (\<forall>c \<in> set cs. field c \<noteq> ''lastVisit'')"
  show "buildWhereClauseForSegment N r = buildWhereClause N r"
  proof (cases "conditions r")
    case None
    then show ?thesis
      by (simp add: buildWhereClauseForSegment_def buildWhereClause_def)
  next
    case (Some cs)
    with free have "map (conditionWhereForSegment N) cs = map (conditionWhere N) cs"
      by (simp add: conditionWhereForSegment_eq)
    with Some show ?thesis
      by (simp add: buildWhereClauseForSegment_def buildWhereClause_def Let_def)
  qed
next
  assume "conditions r' = Some cs' \<and> i < length cs' \<and> field (cs' ! i) = ''lastVisit''"
  then show "constraints (buildWhereClauseForSegment N r') ! i = NoConstraint"
    by (simp add: constraints_buildWhereClauseForSegment conditionWhereForSegment_lastVisit)
qed

theorem buildWhereClauseForSegment_agreement_witness:
  "buildWhereClauseForSegment (\<lambda>s. None)
     \<lparr>logic = ''OR'',
      conditions = Some [\<lparr>field = ''totalSpending'', operator = ''>='', cvalue = VNum 100\<rparr>],
      connectors = None, provider = None\<rparr>
   = Where_OR [TotalSpending Gte (Some 100)]
   \<and> buildWhereClause (\<lambda>s. None)
     \<lparr>logic = ''OR'',
      conditions = Some [\<lparr>field = ''totalSpending'', operator = ''>='', cvalue = VNum 100\<rparr>],
      connectors = None, provider = None\<rparr>
   = Where_OR [TotalSpending Gte (Some 100)]
   \<and> constraints (buildWhereClauseForSegment (\<lambda>s. None)
     \<lparr>logic = ''AND'',
      conditions = Some [\<lparr>field = ''lastVisit'', operator = ''before'', cvalue = VNum 60\<rparr>],
      connectors = None, provider = None\<rparr>) ! 0 = NoConstraint
   \<and> buildWhereClause (\<lambda>s. None)
     \<lparr>logic = ''AND'',
      conditions = Some [\<lparr>field = ''lastVisit'', operator = ''before'', cvalue = VNum 60\<rparr>],
      connectors = None, provider = None\<rparr>
   = Where_AND [LastVisit Lt (DaysAgo (Some 60))]"
  using buildWhereClauseForSegment_agreement
    [of "\<lparr>logic = ''OR'',
      conditions = Some [\<lparr>field = ''totalSpending'', operator = ''>='', cvalue = VNum 100\<rparr>],
      connectors = None, provider = None\<rparr>"
      "\<lambda>s. None"
      "\<lparr>logic = ''AND'',
      conditions = Some [\<lparr>field = ''lastVisit'', operator = ''before'', cvalue = VNum 60\<rparr>],
      connectors = None, provider = None\<rparr>"
      "[\<lparr>field = ''lastVisit'', operator = ''before'', cvalue = VNum 60\<rparr>]" 0]
  by (simp add: buildWhereClause_def conditionWhere_def Number_def)

text \<open>
  Claim C2. When every answer of the provider fails (the request times out, or no usable
  JSON can be extracted from the answer, or the schema rejects it),
  \<^verbatim>\<open>convertNaturalLanguageToRules\<close> returns the result of the local extraction, tagged
  \<^verbatim>\<open>provider: null\<close>, after at most \<open>3 + 2\<close> calls of the provider: three attempts
  provider-first and two as fallback. The function has no failing outcome for any prompt.
\<close>

theorem convert_provider_degradation:
  "\<forall>k. failing P (post k) \<Longrightarrow>
   fst (convertNaturalLanguageToRules e P post p) = localRules p
   \<and> provider (fst (convertNaturalLanguageToRules e P post p)) = None
   \<and> calls (snd (convertNaturalLanguageToRules e P post p)) \<le> 3 + 2"
  using convert_failing [of P post e p] convert_calls [of e P post p]
  by (simp add: provider_localRules)

theorem convert_provider_degradation_witness:
  "(\<forall>k. failing parse_nothing (provider_down k))
   \<and> fst (convertNaturalLanguageToRules env_gemini parse_nothing provider_down ''spent 5'')
       = localRules ''spent 5''
   \<and> provider (fst (convertNaturalLanguageToRules env_gemini parse_nothing provider_down
                       ''spent 5'')) = None
   \<and> calls (snd (convertNaturalLanguageToRules env_gemini parse_nothing provider_down
                    ''spent 5'')) = 5"
proof -
  have f: "\<forall>k. failing parse_nothing (provider_down k)"
    by (simp add: failing_provider_down)
  from convert_provider_degradation [OF f, of env_gemini "''spent 5''"] f show ?thesis
    by (simp add: convert_provider_down)
qed

text \<open>
  Claim C3, amended. For every document that \<^verbatim>\<open>convertNaturalLanguageToRules\<close> returns
  with \<^verbatim>\<open>provider: null\<close>, that is, produced by the local extraction: if the connectors
  are present, there are at least two conditions and exactly one connector fewer than
  conditions. A document accepted from a provider carries the provider's connectors as
  they are; the schema does not relate their number to the number of conditions.
\<close>

theorem local_connectors_length:
  "provider (fst (convertNaturalLanguageToRules e P post p)) = None \<Longrightarrow>
   connectors (fst (convertNaturalLanguageToRules e P post p)) = Some ks \<Longrightarrow>
   conditions (fst (convertNaturalLanguageToRules e P post p)) = Some cs \<Longrightarrow>
   length ks = length cs - 1 \<and> 2 \<le> length cs"
  using convert_local [of e P post p] localRules_connectors_length [of p ks cs]
  by simp

theorem local_connectors_length_witness:
  "provider (fst (convertNaturalLanguageToRules env_local parse_nothing provider_down
                    ''spent over 500 or visited more than 3 times'')) = None
   \<and> connectors (fst (convertNaturalLanguageToRules env_local parse_nothing provider_down
                    ''spent over 500 or visited more than 3 times'')) = Some [''OR'']
   \<and> conditions (fst (convertNaturalLanguageToRules env_local parse_nothing provider_down
                    ''spent over 500 or visited more than 3 times''))
       = Some [\<lparr>field = ''totalSpending'', operator = ''>'', cvalue = VNum 500\<rparr>,
               \<lparr>field = ''visitCount'', operator = ''>'', cvalue = VNum 3\<rparr>]
   \<and> length [''OR'']
       = length [\<lparr>field = ''totalSpending'', operator = ''>'', cvalue = VNum 500\<rparr>,
                 \<lparr>field = ''visitCount'', operator = ''>'', cvalue = VNum 3\<rparr>] - 1"
proof -
  let ?d = "fst (convertNaturalLanguageToRules env_local parse_nothing provider_down
                    ''spent over 500 or visited more than 3 times'')"
  have d: "?d = spent_or_visited"
    by (simp add: convert_disabled enableProvider_env_local localRules_spent_or_visited)
  have p: "provider ?d = None" and k: "connectors ?d = Some [''OR'']"
    and c: "conditions ?d
       = Some [\<lparr>field = ''totalSpending'', operator = ''>'', cvalue = VNum 500\<rparr>,
               \<lparr>field = ''visitCount'', operator = ''>'', cvalue = VNum 3\<rparr>]"
    by (simp_all add: d spent_or_visited_def)
  from local_connectors_length [OF p k c] p k c show ?thesis
    by simp
qed

theorem provider_connectors_length_counterexample:
  "fst (convertNaturalLanguageToRules env_gemini parse_example provider_up
          ''spent over 500 or visited more than 3 times'') = provider_document
   \<and> connectors provider_document = Some [''OR'', ''AND'']
   \<and> conditions provider_document
       = Some [\<lparr>field = ''email'', operator = ''contains'', cvalue = VStr ''gmail''\<rparr>]
   \<and> length [''OR'', ''AND'']
       \<noteq> length [\<lparr>field = ''email'', operator = ''contains'', cvalue = VStr ''gmail''\<rparr>] - 1"
  by (simp add: convert_provider_up provider_document_def)

text \<open>
  Claim C4, amended. With the provider disabled, the prompt
  \<^verbatim>\<open>customers who spent between 100 and 500\<close> yields three conditions: the two of the
  between pattern, \<^verbatim>\<open>totalSpending >= 100\<close> and \<^verbatim>\<open>totalSpending <= 500\<close>, followed by
  \<^verbatim>\<open>totalSpending >= 100\<close> once more, which the spending family contributes from its own
  match of \<^verbatim>\<open>spent between 100\<close>; no condition other than those two occurs. The
  connectors are \<^verbatim>\<open>['AND', 'AND']\<close> and the logic is \<^verbatim>\<open>AND\<close>.
\<close>

theorem spent_between_conditions:
  "\<not> enableProvider e \<Longrightarrow>
   fst (convertNaturalLanguageToRules e P post ''customers who spent between 100 and 500'')
     = spent_between
   \<and> conditions spent_between
       = Some [\<lparr>field = ''totalSpending'', operator = ''>='', cvalue = VNum 100\<rparr>,
               \<lparr>field = ''totalSpending'', operator = ''<='', cvalue = VNum 500\<rparr>,
               \<lparr>field = ''totalSpending'', operator = ''>='', cvalue = VNum 100\<rparr>]"
  by (simp add: convert_disabled localRules_spent_between spent_between_def)

theorem spent_between_conditions_witness:
  "\<not> enableProvider env_local
   \<and> conditions (fst (convertNaturalLanguageToRules env_local parse_nothing provider_down
                         ''customers who spent between 100 and 500''))
       = Some [\<lparr>field = ''totalSpending'', operator = ''>='', cvalue = VNum 100\<rparr>,
               \<lparr>field = ''totalSpending'', operator = ''<='', cvalue = VNum 500\<rparr>,
               \<lparr>field = ''totalSpending'', operator = ''>='', cvalue = VNum 100\<rparr>]"
  using spent_between_conditions [OF enableProvider_env_local, of parse_nothing provider_down]
    enableProvider_env_local
  by simp

theorem spent_between_two_conditions_counterexample:
  "\<not> enableProvider env_local
   \<and> conditions (fst (convertNaturalLanguageToRules env_local parse_nothing provider_down
                         ''customers who spent between 100 and 500''))
       \<noteq> Some [\<lparr>field = ''totalSpending'', operator = ''>='', cvalue = VNum 100\<rparr>,
                \<lparr>field = ''totalSpending'', operator = ''<='', cvalue = VNum 500\<rparr>]"
  by (simp add: convert_disabled enableProvider_env_local localRules_spent_between
        spent_between_def)

text \<open>
  Claim C6, amended. In a document produced by the local extraction no condition has the
  operator \<^verbatim>\<open>after\<close>, and every \<^verbatim>\<open>lastVisit\<close> condition has the operator \<^verbatim>\<open>before\<close> and a
  value in days computed, in the doubles of the language, from a numeric token of the
  prompt that is nearest to the first recency keyword the prompt contains: with \<open>n\<close> the
  number \<^verbatim>\<open>Number(token)\<close>, the value is \<^verbatim>\<open>Math.round(n) * 30\<close> when the prompt contains
  \<^verbatim>\<open>month\<close>, else \<^verbatim>\<open>Math.round(n)\<close>; the stated number is rounded, not kept as it is.
  With the provider disabled, \<^verbatim>\<open>in the last 2 months\<close> yields the value 60 and
  \<^verbatim>\<open>in the last 10 days\<close> the value 10; \<^verbatim>\<open>last 0.499999999999999999 days\<close> yields 1, the
  token being the double one half, and \<^verbatim>\<open>in the last 9007199254740991 months\<close> yields
  the double 270215977642229728.
\<close>

theorem lastVisit_days_rounded:
  "(provider (fst (convertNaturalLanguageToRules e P post p)) = None
    \<and> conditions (fst (convertNaturalLanguageToRules e P post p)) = Some cs \<and> c \<in> set cs
    \<longrightarrow> operator c \<noteq> ''after''
        \<and> (field c = ''lastVisit'' \<longrightarrow>
             operator c = ''before''
             \<and> (\<exists>nm \<in> set (numberMatches (toLowerCase p)).
                    nm_value nm = NumberOfDecimal (nm_raw nm)
                    \<and> (\<forall>x \<in> set (numberMatches (toLowerCase p)).
                          \<bar>nm_index nm - firstKeywordIndex (toLowerCase p)
                                            [''month'', ''months'', ''day'', ''days'', ''last'']\<bar>
                          \<le> \<bar>nm_index x - firstKeywordIndex (toLowerCase p)
                                            [''month'', ''months'', ''day'', ''days'', ''last'']\<bar>)
                    \<and> cvalue c = VNum (if includesStr (toLowerCase p) ''month''
                                            \<or> includesStr (toLowerCase p) ''months''
                                         then timesDouble (Math_round (nm_value nm)) 30
                                         else Math_round (nm_value nm)))))
   \<and> (\<not> enableProvider e' \<longrightarrow>
        fst (convertNaturalLanguageToRules e' P' post' ''in the last 2 months'')
          = lastVisit_before 60
        \<and> fst (convertNaturalLanguageToRules e' P' post' ''in the last 10 days'')
          = lastVisit_before 10
        \<and> fst (convertNaturalLanguageToRules e' P' post' ''last 0.499999999999999999 days'')
          = lastVisit_before 1
        \<and> fst (convertNaturalLanguageToRules e' P' post'
                  ''in the last 9007199254740991 months'')
          = lastVisit_before 270215977642229728)"
proof -
  have general:
    "provider (fst (convertNaturalLanguageToRules e P post p)) = None
      \<and> conditions (fst (convertNaturalLanguageToRules e P post p)) = Some cs \<and> c \<in> set cs
     \<longrightarrow> operator c \<noteq> ''after''
        \<and> (field c = ''lastVisit'' \<longrightarrow>
             operator c = ''before''
             \<and> (\<exists>nm \<in> set (numberMatches (toLowerCase p)).
                    nm_value nm = NumberOfDecimal (nm_raw nm)
                    \<and> (\<forall>x \<in> set (numberMatches (toLowerCase p)).
                          \<bar>nm_index nm - firstKeywordIndex (toLowerCase p)
                                            [''month'', ''months'', ''day'', ''days'', ''last'']\<bar>
                          \<le> \<bar>nm_index x - firstKeywordIndex (toLowerCase p)
                                            [''month'', ''months'', ''day'', ''days'', ''last'']\<bar>)
                    \<and> cvalue c = VNum (if includesStr (toLowerCase p) ''month''
                                            \<or> includesStr (toLowerCase p) ''months''
                                         then timesDouble (Math_round (nm_value nm)) 30
                                         else Math_round (nm_value nm))))"
  proof
    assume a: "provider (fst (convertNaturalLanguageToRules e P post p)) = None
      \<and> conditions (fst (convertNaturalLanguageToRules e P post p)) = Some cs \<and> c \<in> set cs"
    then have "fst (convertNaturalLanguageToRules e P post p) = localRules p"
      by (simp add: convert_local)
    with a have cs: "conditions (localRules p) = Some cs" and c: "c \<in> set cs"
      by simp_all
    from cs c show "operator c \<noteq> ''after''
        \<and> (field c = ''lastVisit'' \<longrightarrow>
             operator c = ''before''
             \<and> (\<exists>nm \<in> set (numberMatches (toLowerCase p)).
                    nm_value nm = NumberOfDecimal (nm_raw nm)
                    \<and> (\<forall>x \<in> set (numberMatches (toLowerCase p)).
                          \<bar>nm_index nm - firstKeywordIndex (toLowerCase p)
                                            [''month'', ''months'', ''day'', ''days'', ''last'']\<bar>
                          \<le> \<bar>nm_index x - firstKeywordIndex (toLowerCase p)
                                            [''month'', ''months'', ''day'', ''days'', ''last'']\<bar>)
                    \<and> cvalue c = VNum (if includesStr (toLowerCase p) ''month''
                                            \<or> includesStr (toLowerCase p) ''months''
                                         then timesDouble (Math_round (nm_value nm)) 30
                                         else Math_round (nm_value nm))))"
      by (rule localRules_lastVisit)
  qed
  have examples:
    "\<not> enableProvider e' \<longrightarrow>
        fst (convertNaturalLanguageToRules e' P' post' ''in the last 2 months'')
          = lastVisit_before 60
        \<and> fst (convertNaturalLanguageToRules e' P' post' ''in the last 10 days'')
          = lastVisit_before 10
        \<and> fst (convertNaturalLanguageToRules e' P' post' ''last 0.499999999999999999 days'')
          = lastVisit_before 1
        \<and> fst (convertNaturalLanguageToRules e' P' post'
                  ''in the last 9007199254740991 months'')
          = lastVisit_before 270215977642229728"
    by (simp add: convert_disabled localRules_two_months localRules_ten_days
          localRules_half_day localRules_many_months)
  from general examples show ?thesis
    by (rule conjI)
qed

theorem lastVisit_days_rounded_witness:
  "\<not> enableProvider env_local
   \<and> provider (fst (convertNaturalLanguageToRules env_local parse_nothing provider_down
                       ''in the last 2 months'')) = None
   \<and> conditions (fst (convertNaturalLanguageToRules env_local parse_nothing provider_down
                         ''in the last 2 months''))
       = Some [\<lparr>field = ''lastVisit'', operator = ''before'', cvalue = VNum 60\<rparr>]
   \<and> numberMatches (toLowerCase ''in the last 2 months'')
       = [\<lparr>nm_raw = ''2'', nm_value = 2, nm_index = 12\<rparr>]
   \<and> NumberOfDecimal ''2'' = 2
   \<and> includesStr (toLowerCase ''in the last 2 months'') ''month''
   \<and> timesDouble (Math_round 2) 30 = 60
   \<and> conditions (fst (convertNaturalLanguageToRules env_local parse_nothing provider_down
                         ''in the last 10 days''))
       = Some [\<lparr>field = ''lastVisit'', operator = ''before'', cvalue = VNum 10\<rparr>]
   \<and> conditions (fst (convertNaturalLanguageToRules env_local parse_nothing provider_down
                         ''last 0.499999999999999999 days''))
       = Some [\<lparr>field = ''lastVisit'', operator = ''before'', cvalue = VNum 1\<rparr>]
   \<and> conditions (fst (convertNaturalLanguageToRules env_local parse_nothing provider_down
                         ''in the last 9007199254740991 months''))
       = Some [\<lparr>field = ''lastVisit'', operator = ''before'',
                 cvalue = VNum 270215977642229728\<rparr>]"
proof -
  have r: "timesDouble (Math_round 2) 30 = 60"
    by code_simp
  have n: "NumberOfDecimal ''2'' = 2"
    by code_simp
  from lastVisit_days_rounded
    [of env_local parse_nothing provider_down "''in the last 2 months''"
        "[\<lparr>field = ''lastVisit'', operator = ''before'', cvalue = VNum 60\<rparr>]"
        "\<lparr>field = ''lastVisit'', operator = ''before'', cvalue = VNum 60\<rparr>"
        env_local parse_nothing provider_down]
    enableProvider_env_local numberMatches_two_months includes_two_months r n
  show ?thesis
    by (simp add: lastVisit_before_def)
qed

theorem lastVisit_fraction_counterexample:
  "\<not> enableProvider env_local
   \<and> map nm_raw (numberMatches (toLowerCase ''last 2.5 days'')) = [''2.5'']
   \<and> map nm_value (numberMatches (toLowerCase ''last 2.5 days'')) = [5 / 2]
   \<and> \<not> includesStr (toLowerCase ''last 2.5 days'') ''month''
   \<and> conditions (fst (convertNaturalLanguageToRules env_local parse_nothing provider_down
                         ''last 2.5 days''))
       = Some [\<lparr>field = ''lastVisit'', operator = ''before'', cvalue = VNum 3\<rparr>]
   \<and> VNum 3 \<noteq> VNum (5 / 2)"
proof -
  have m: "\<not> includesStr (toLowerCase ''last 2.5 days'') ''month''"
    by code_simp
  from m show ?thesis
    by (simp add: convert_disabled enableProvider_env_local localRules_fraction
          numberMatches_fraction lastVisit_before_def)
qed

text \<open>
  Claim C7, amended. When the visit-count family has a direct match (\<^verbatim>\<open>visited ... N\<close> or
  \<^verbatim>\<open>N times|visits\<close>), its condition has the operator \<^verbatim>\<open><\<close> only if the text around the
  match contains \<^verbatim>\<open>less than\<close>; with \<^verbatim>\<open>under\<close> there, and none of \<^verbatim>\<open>less than\<close>,
  \<^verbatim>\<open>more than\<close> and \<^verbatim>\<open>over\<close>, the operator is the default \<^verbatim>\<open>>=\<close>. Without a direct
  match the family goes through \<^verbatim>\<open>pushNumericCondition\<close>, where \<^verbatim>\<open>under\<close> does give
  \<^verbatim>\<open><\<close>.
\<close>

theorem visit_direct_less_than_only:
  "visitMatched lp = Some (v, idx) \<Longrightarrow> c \<in> set (visitCandidates lp) \<Longrightarrow>
   field c = ''visitCount'' \<and> cvalue c = VNum v
   \<and> (operator c = ''<'' \<longrightarrow> includesStr (visitNearby lp idx) ''less than'')
   \<and> (includesStr (visitNearby lp idx) ''under''
        \<and> \<not> includesStr (visitNearby lp idx) ''less than''
        \<and> \<not> includesStr (visitNearby lp idx) ''more than''
        \<and> \<not> includesStr (visitNearby lp idx) ''over''
        \<longrightarrow> operator c = ''>='')"
  unfolding visitCandidates_def
  by (auto simp: Let_def split: if_splits)

theorem visit_direct_less_than_only_witness:
  "visitMatched ''visited under 5 times'' = Some (5, 0)
   \<and> mkCandidate ''visitCount'' ''>='' 5 0 \<in> set (visitCandidates ''visited under 5 times'')
   \<and> includesStr (visitNearby ''visited under 5 times'' 0) ''under''
   \<and> \<not> includesStr (visitNearby ''visited under 5 times'' 0) ''less than''
   \<and> \<not> includesStr (visitNearby ''visited under 5 times'' 0) ''more than''
   \<and> \<not> includesStr (visitNearby ''visited under 5 times'' 0) ''over''
   \<and> operator (mkCandidate ''visitCount'' ''>='' 5 0) = ''>=''
   \<and> visitMatched ''visited less than 5 times'' = Some (5, 0)
   \<and> mkCandidate ''visitCount'' ''<'' 5 0 \<in> set (visitCandidates ''visited less than 5 times'')
   \<and> operator (mkCandidate ''visitCount'' ''<'' 5 0) = ''<''
   \<and> includesStr (visitNearby ''visited less than 5 times'' 0) ''less than''"
proof -
  have m: "visitMatched ''visited under 5 times'' = Some (5, 0)"
    and c: "mkCandidate ''visitCount'' ''>='' 5 0 \<in> set (visitCandidates ''visited under 5 times'')"
    using visit_direct_under by simp_all
  have m': "visitMatched ''visited less than 5 times'' = Some (5, 0)"
    and c': "mkCandidate ''visitCount'' ''<'' 5 0
               \<in> set (visitCandidates ''visited less than 5 times'')"
    using visit_direct_less_than by simp_all
  from visit_direct_less_than_only [OF m c] visit_direct_less_than_only [OF m' c']
    m c m' c' visit_direct_under
  show ?thesis by simp
qed

theorem visit_fallback_under_counterexample:
  "includesStr (toLowerCase ''under 5 visit'') ''visit''
   \<and> includesStr (toLowerCase ''under 5 visit'') ''under''
   \<and> \<not> includesStr (toLowerCase ''under 5 visit'') ''less than''
   \<and> \<not> includesStr (toLowerCase ''under 5 visit'') ''more than''
   \<and> \<not> includesStr (toLowerCase ''under 5 visit'') ''over''
   \<and> visitCandidates (toLowerCase ''under 5 visit'') = [mkCandidate ''visitCount'' ''<'' 5 8]
   \<and> conditions (fst (convertNaturalLanguageToRules env_local parse_nothing provider_down
                         ''under 5 visit''))
       = Some [\<lparr>field = ''visitCount'', operator = ''<'', cvalue = VNum 5\<rparr>]"
proof -
  have l: "toLowerCase ''under 5 visit'' = ''under 5 visit''"
    by code_simp
  from visit_fallback_under show ?thesis
    by (simp add: l convert_disabled enableProvider_env_local)
qed

text \<open>
  Claim C8, amended. Provider-first mode activates by itself when the enable flag is
  \<^verbatim>\<open>true\<close> and the Gemini key is configured, without the provider-first flag:
  \<^verbatim>\<open>callProviderApi\<close> is then called at least once, whatever the local extraction
  found. When the enable flag is not \<^verbatim>\<open>true\<close> it is never called, whatever keys are
  configured, and the result is the local one.
\<close>

theorem provider_first_needs_enable:
  "(enableProvider e \<and> truthy (GEMINI_API_KEY e) \<longrightarrow>
      providerFirst e \<and> 1 \<le> calls (snd (convertNaturalLanguageToRules e P post p)))
   \<and> (\<not> enableProvider e' \<longrightarrow>
        convertNaturalLanguageToRules e' P' post' p'
          = (localRules p', \<lparr>calls = 0, slept = 0\<rparr>))"
  using convert_provider_first [of e P post p] convert_disabled [of e' P' post' p']
  by (auto simp: providerFirst_def)

theorem provider_first_needs_enable_witness:
  "enableProvider env_gemini \<and> truthy (GEMINI_API_KEY env_gemini)
   \<and> PROVIDER_FIRST_NL_TO_RULES env_gemini = None
   \<and> providerFirst env_gemini
   \<and> convertNaturalLanguageToRules env_gemini parse_example provider_up
        ''spent over 500 or visited more than 3 times''
       = (provider_document, \<lparr>calls = 1, slept = 0\<rparr>)
   \<and> localRules ''spent over 500 or visited more than 3 times'' = spent_or_visited
   \<and> \<not> enableProvider env_key_only
   \<and> convertNaturalLanguageToRules env_key_only parse_example provider_up ''hello''
       = (localRules ''hello'', \<lparr>calls = 0, slept = 0\<rparr>)"
  using provider_first_needs_enable
    [of env_gemini parse_example provider_up "''spent over 500 or visited more than 3 times''"
        env_key_only parse_example provider_up "''hello''"]
    enableProvider_env_gemini enableProvider_env_key_only
  by (simp add: convert_provider_up localRules_spent_or_visited)

theorem provider_first_without_enable_counterexample:
  "ENABLE_PROVIDER_NL_TO_RULES env_key_only = None
   \<and> truthy (GEMINI_API_KEY env_key_only)
   \<and> calls (snd (convertNaturalLanguageToRules env_key_only parse_example provider_up
                    ''hello'')) = 0
   \<and> \<not> (\<exists>e P post p. \<not> enableProvider e \<and> truthy (GEMINI_API_KEY e)
          \<and> 0 < calls (snd (convertNaturalLanguageToRules e P post p)))"
  by (auto simp: enableProvider_env_key_only convert_disabled)

text \<open>
  Claim C9. With the provider disabled the logic of the returned document is \<^verbatim>\<open>AND\<close> or
  \<^verbatim>\<open>OR\<close>; it is \<^verbatim>\<open>AND\<close> whenever there are two or more conditions, whatever the
  connectors are; and it is \<^verbatim>\<open>OR\<close> only if there are fewer than two conditions, no
  connectors, and the prompt contains the word \<^verbatim>\<open>or\<close> and not the word \<^verbatim>\<open>and\<close>.
\<close>

theorem local_logic_AND:
  "\<not> enableProvider e \<Longrightarrow>
   conditions (fst (convertNaturalLanguageToRules e P post p)) = Some cs \<Longrightarrow>
   (logic (fst (convertNaturalLanguageToRules e P post p)) = ''AND''
      \<or> logic (fst (convertNaturalLanguageToRules e P post p)) = ''OR'')
   \<and> (2 \<le> length cs \<longrightarrow> logic (fst (convertNaturalLanguageToRules e P post p)) = ''AND'')
   \<and> (logic (fst (convertNaturalLanguageToRules e P post p)) = ''OR'' \<longrightarrow>
        length cs < 2
        \<and> connectors (fst (convertNaturalLanguageToRules e P post p)) = None
        \<and> test orRe (toLowerCase p) \<and> \<not> test andRe (toLowerCase p))"
  by (auto simp: convert_disabled logic_localRules conditions_localRules connectors_localRules
        split: if_splits)

theorem local_logic_AND_witness:
  "\<not> enableProvider env_local
   \<and> conditions (fst (convertNaturalLanguageToRules env_local parse_nothing provider_down
                         ''spent over 500 or visited more than 3 times''))
       = Some [\<lparr>field = ''totalSpending'', operator = ''>'', cvalue = VNum 500\<rparr>,
               \<lparr>field = ''visitCount'', operator = ''>'', cvalue = VNum 3\<rparr>]
   \<and> connectors (fst (convertNaturalLanguageToRules env_local parse_nothing provider_down
                         ''spent over 500 or visited more than 3 times'')) = Some [''OR'']
   \<and> test orRe (toLowerCase ''spent over 500 or visited more than 3 times'')
   \<and> \<not> test andRe (toLowerCase ''spent over 500 or visited more than 3 times'')
   \<and> logic (fst (convertNaturalLanguageToRules env_local parse_nothing provider_down
                    ''spent over 500 or visited more than 3 times'')) = ''AND''
   \<and> conditions (fst (convertNaturalLanguageToRules env_local parse_nothing provider_down
                         ''spent 500 or so''))
       = Some [\<lparr>field = ''totalSpending'', operator = ''>='', cvalue = VNum 500\<rparr>]
   \<and> logic (fst (convertNaturalLanguageToRules env_local parse_nothing provider_down
                    ''spent 500 or so'')) = ''OR''
   \<and> connectors (fst (convertNaturalLanguageToRules env_local parse_nothing provider_down
                         ''spent 500 or so'')) = None
   \<and> test orRe (toLowerCase ''spent 500 or so'')
   \<and> \<not> test andRe (toLowerCase ''spent 500 or so'')"
proof -
  let ?d = "fst (convertNaturalLanguageToRules env_local parse_nothing provider_down
                    ''spent over 500 or visited more than 3 times'')"
  let ?d' = "fst (convertNaturalLanguageToRules env_local parse_nothing provider_down
                    ''spent 500 or so'')"
  have d: "?d = spent_or_visited"
    by (simp add: convert_disabled enableProvider_env_local localRules_spent_or_visited)
  have d': "?d' = \<lparr>logic = ''OR'',
      conditions = Some [\<lparr>field = ''totalSpending'', operator = ''>='', cvalue = VNum 500\<rparr>],
      connectors = None, provider = None\<rparr>"
    by (simp add: convert_disabled enableProvider_env_local localRules_or_so)
  have c: "conditions ?d
       = Some [\<lparr>field = ''totalSpending'', operator = ''>'', cvalue = VNum 500\<rparr>,
               \<lparr>field = ''visitCount'', operator = ''>'', cvalue = VNum 3\<rparr>]"
    and k: "connectors ?d = Some [''OR'']"
    by (simp_all add: d spent_or_visited_def)
  have c': "conditions ?d'
       = Some [\<lparr>field = ''totalSpending'', operator = ''>='', cvalue = VNum 500\<rparr>]"
    and l': "logic ?d' = ''OR''"
    by (simp_all add: d')
  from local_logic_AND [OF enableProvider_env_local c]
    local_logic_AND [OF enableProvider_env_local c']
    enableProvider_env_local c k c' l' test_or_spent_or_visited
  show ?thesis by simp
qed

end
